theory Spec2Isabelle
  imports Main "HOL-Library.Word"
begin

section \<open>The ledger-side parameter store: PKPToolPolicyParameterFacet.sol\<close>

text \<open>
  Solidity value types are words of their width; \<open>string\<close> and \<open>bytes\<close> are lists.
  A Solidity \<open>mapping\<close> is a total function whose default is the zero value of the
  value type (the empty array, the empty byte string).
\<close>

type_synonym uint256 = "256 word"
type_synonym address = "160 word"
type_synonym bytes = "8 word list"

text \<open>
  \<open>PKPToolPolicyStorage.ToolInfo\<close>, restricted to the two members this facet touches.
\<close>

record ToolInfo =
  policyParameterNames :: "address \<Rightarrow> string list"
  policyParameters :: "address \<Rightarrow> string \<Rightarrow> bytes"

text \<open>
  \<open>PKPToolPolicyStorage.PKPData\<close>. Modelled from the spec: the storage library is not
  part of the sources, so the set of tools registered under a PKP is the field
  \<open>toolCids\<close> (the spec: "a policy or parameter operation on a (tool, delegatee) pair
  requires the tool to already be registered under the PKP").
\<close>

record PKPData =
  toolCids :: "string set"
  toolMap :: "string \<Rightarrow> ToolInfo"

text \<open>
  \<open>PKPToolPolicyStorage.Layout\<close>. Modelled from the spec: the owner of a PKP is read
  from another contract by the base contract, which is not part of the sources; here
  it is the field \<open>pkpOwner\<close> (the spec: a PKP "has an owner address that is the sole
  authority permitted to mutate its policy state").
\<close>

record Layout =
  pkpStore :: "uint256 \<Rightarrow> PKPData"
  pkpOwner :: "uint256 \<Rightarrow> address"

datatype PKPToolPolicyErrors =
    NotPKPOwner
  | InvalidDelegatee
  | ToolNotFound string
  | ArrayLengthMismatch
  | Panic

datatype PKPToolPolicyEvents =
    PolicyParameterSet uint256 string address string bytes
  | PolicyParameterRemoved uint256 string address string

text \<open>
  The ledger as a transaction sees it: the contract's storage and the events emitted
  so far. A call returns \<open>Inr\<close> of the ledger it leaves, or \<open>Inl\<close> of the error it
  reverted with; a reverted call persists nothing, which \<open>ledger_after\<close> writes out.
\<close>

record ledger =
  layout :: Layout
  emitted :: "PKPToolPolicyEvents list"

definition ledger_after :: "ledger \<Rightarrow> PKPToolPolicyErrors + ledger \<Rightarrow> ledger" where
  "ledger_after w r = (case r of Inl e \<Rightarrow> w | Inr w' \<Rightarrow> w')"

text \<open>
  Modelled from the spec: the modifier \<open>onlyPKPOwner\<close> of PKPToolPolicyBase.sol, which
  is not part of the sources ("caller not PKP owner: fails before any mutation").
\<close>

definition onlyPKPOwner :: "address \<Rightarrow> Layout \<Rightarrow> uint256 \<Rightarrow> PKPToolPolicyErrors + unit" where
  "onlyPKPOwner msg_sender l pkpTokenId =
     (if msg_sender \<noteq> pkpOwner l pkpTokenId then Inl NotPKPOwner else Inr ())"

text \<open>
  Modelled from the spec: \<open>_verifyToolRegistered\<close> of PKPToolPolicyBase.sol, which is
  not part of the sources ("tool not registered under PKP: fails before any mutation").
\<close>

definition verifyToolRegistered :: "Layout \<Rightarrow> uint256 \<Rightarrow> string \<Rightarrow> PKPToolPolicyErrors + unit" where
  "verifyToolRegistered l pkpTokenId toolIpfsCid =
     (if toolIpfsCid \<in> toolCids (pkpStore l pkpTokenId) then Inr ()
      else Inl (ToolNotFound toolIpfsCid))"

text \<open>
  \<open>keccak256(bytes(a)) == keccak256(bytes(b))\<close> is how the contract compares two
  strings. The hash is taken as collision-free, the same idealisation under which a
  Solidity mapping is a function of its key, so the comparison is equality of strings.
\<close>

definition keccak_eq :: "string \<Rightarrow> string \<Rightarrow> bool" where
  "keccak_eq a b = (a = b)"

definition toolInfoOf :: "Layout \<Rightarrow> uint256 \<Rightarrow> string \<Rightarrow> ToolInfo" where
  "toolInfoOf l pkpTokenId toolIpfsCid = toolMap (pkpStore l pkpTokenId) toolIpfsCid"

text \<open>Writing a \<open>ToolInfo\<close> back through the two nested mappings of the storage pointer.\<close>

definition storeToolInfo :: "Layout \<Rightarrow> uint256 \<Rightarrow> string \<Rightarrow> ToolInfo \<Rightarrow> Layout" where
  "storeToolInfo l pkpTokenId toolIpfsCid ti =
     l\<lparr>pkpStore := (pkpStore l)(pkpTokenId :=
         (pkpStore l pkpTokenId)\<lparr>toolMap := (toolMap (pkpStore l pkpTokenId))(toolIpfsCid := ti)\<rparr>)\<rparr>"

subsection \<open>The two reads\<close>

definition getToolPolicyParameterNamesForDelegatee ::
  "Layout \<Rightarrow> uint256 \<Rightarrow> string \<Rightarrow> address \<Rightarrow> PKPToolPolicyErrors + string list" where
  "getToolPolicyParameterNamesForDelegatee l pkpTokenId toolIpfsCid delegatee =
     (if delegatee = 0 then Inl InvalidDelegatee
      else case verifyToolRegistered l pkpTokenId toolIpfsCid of
        Inl e \<Rightarrow> Inl e
      | Inr _ \<Rightarrow> Inr (policyParameterNames (toolInfoOf l pkpTokenId toolIpfsCid) delegatee))"

definition getToolPolicyParameterForDelegatee ::
  "Layout \<Rightarrow> uint256 \<Rightarrow> string \<Rightarrow> address \<Rightarrow> string \<Rightarrow> PKPToolPolicyErrors + bytes" where
  "getToolPolicyParameterForDelegatee l pkpTokenId toolIpfsCid delegatee parameterName =
     (if delegatee = 0 then Inl InvalidDelegatee
      else case verifyToolRegistered l pkpTokenId toolIpfsCid of
        Inl e \<Rightarrow> Inl e
      | Inr _ \<Rightarrow> Inr (policyParameters (toolInfoOf l pkpTokenId toolIpfsCid) delegatee parameterName))"

subsection \<open>Setting a parameter\<close>

text \<open>
  The scan of \<open>setToolPolicyParameterForDelegatee\<close>: \<open>found\<close> becomes true at the first
  index whose name compares equal, and the loop stops there.
\<close>

function nameFound :: "string list \<Rightarrow> string \<Rightarrow> nat \<Rightarrow> bool" where
  "nameFound parameterNames parameterName i =
     (if i < length parameterNames then
        (if keccak_eq (parameterNames ! i) parameterName then True
         else nameFound parameterNames parameterName (Suc i))
      else False)"
  by pat_completeness auto
termination
  by (relation "measure (\<lambda>(ns, n, i). length ns - i)") auto

definition setToolPolicyParameterForDelegatee ::
  "address \<Rightarrow> ledger \<Rightarrow> uint256 \<Rightarrow> string \<Rightarrow> address \<Rightarrow> string \<Rightarrow> bytes
     \<Rightarrow> PKPToolPolicyErrors + ledger" where
  "setToolPolicyParameterForDelegatee msg_sender w pkpTokenId toolIpfsCid delegatee
       parameterName parameterValue =
     (case onlyPKPOwner msg_sender (layout w) pkpTokenId of
        Inl e \<Rightarrow> Inl e
      | Inr _ \<Rightarrow>
          if delegatee = 0 then Inl InvalidDelegatee
          else case verifyToolRegistered (layout w) pkpTokenId toolIpfsCid of
            Inl e \<Rightarrow> Inl e
          | Inr _ \<Rightarrow>
              let toolInfo = toolInfoOf (layout w) pkpTokenId toolIpfsCid;
                  parameterNames = policyParameterNames toolInfo delegatee;
                  found = nameFound parameterNames parameterName 0;
                  parameterNames' =
                    (if \<not> found then parameterNames @ [parameterName] else parameterNames);
                  toolInfo' = toolInfo
                    \<lparr>policyParameterNames :=
                       (policyParameterNames toolInfo)(delegatee := parameterNames'),
                     policyParameters :=
                       (policyParameters toolInfo)(delegatee :=
                          (policyParameters toolInfo delegatee)(parameterName := parameterValue))\<rparr>
              in Inr (w\<lparr>layout := storeToolInfo (layout w) pkpTokenId toolIpfsCid toolInfo',
                        emitted := emitted w @
                          [PolicyParameterSet pkpTokenId toolIpfsCid delegatee
                             parameterName parameterValue]\<rparr>))"

subsection \<open>Removing a parameter\<close>

text \<open>
  The scan of \<open>removeToolPolicyParameterForDelegatee\<close>: at the first index whose name
  compares equal, the last element is moved there (unless it is the last index), the
  array is popped, and the loop stops. Without a match the array is left as it is.
\<close>

function removeName :: "string list \<Rightarrow> string \<Rightarrow> nat \<Rightarrow> string list" where
  "removeName parameterNames parameterName i =
     (if i < length parameterNames then
        (if keccak_eq (parameterNames ! i) parameterName then
           butlast
             (if i \<noteq> length parameterNames - 1
              then parameterNames[i := parameterNames ! (length parameterNames - 1)]
              else parameterNames)
         else removeName parameterNames parameterName (Suc i))
      else parameterNames)"
  by pat_completeness auto
termination
  by (relation "measure (\<lambda>(ns, n, i). length ns - i)") auto

definition removeToolPolicyParameterForDelegatee ::
  "address \<Rightarrow> ledger \<Rightarrow> uint256 \<Rightarrow> string \<Rightarrow> address \<Rightarrow> string
     \<Rightarrow> PKPToolPolicyErrors + ledger" where
  "removeToolPolicyParameterForDelegatee msg_sender w pkpTokenId toolIpfsCid delegatee
       parameterName =
     (case onlyPKPOwner msg_sender (layout w) pkpTokenId of
        Inl e \<Rightarrow> Inl e
      | Inr _ \<Rightarrow>
          if delegatee = 0 then Inl InvalidDelegatee
          else case verifyToolRegistered (layout w) pkpTokenId toolIpfsCid of
            Inl e \<Rightarrow> Inl e
          | Inr _ \<Rightarrow>
              let toolInfo = toolInfoOf (layout w) pkpTokenId toolIpfsCid;
                  parameterNames = policyParameterNames toolInfo delegatee;
                  toolInfo' = toolInfo
                    \<lparr>policyParameterNames :=
                       (policyParameterNames toolInfo)(delegatee :=
                          removeName parameterNames parameterName 0),
                     policyParameters :=
                       (policyParameters toolInfo)(delegatee :=
                          (policyParameters toolInfo delegatee)(parameterName := []))\<rparr>
              in Inr (w\<lparr>layout := storeToolInfo (layout w) pkpTokenId toolIpfsCid toolInfo',
                        emitted := emitted w @
                          [PolicyParameterRemoved pkpTokenId toolIpfsCid delegatee
                             parameterName]\<rparr>))"

subsection \<open>The batch calls\<close>

text \<open>
  The loop of \<open>batchSetToolPolicyParametersForDelegatee\<close>, from index \<open>i\<close>. An index
  outside \<open>parameterValues\<close> would be a Solidity panic; a revert of one call reverts
  the whole transaction.
\<close>

function batchSetLoop ::
  "address \<Rightarrow> ledger \<Rightarrow> uint256 \<Rightarrow> string \<Rightarrow> address \<Rightarrow> string list \<Rightarrow> bytes list \<Rightarrow> nat
     \<Rightarrow> PKPToolPolicyErrors + ledger" where
  "batchSetLoop msg_sender w pkpTokenId toolIpfsCid delegatee parameterNames parameterValues i =
     (if i < length parameterNames then
        (if i < length parameterValues then
           (case setToolPolicyParameterForDelegatee msg_sender w pkpTokenId toolIpfsCid
                   delegatee (parameterNames ! i) (parameterValues ! i) of
              Inl e \<Rightarrow> Inl e
            | Inr w' \<Rightarrow>
                batchSetLoop msg_sender w' pkpTokenId toolIpfsCid delegatee
                  parameterNames parameterValues (Suc i))
         else Inl Panic)
      else Inr w)"
  by pat_completeness auto
termination
  by (relation "measure (\<lambda>(s, w, p, c, d, ns, vs, i). length ns - i)") auto

definition batchSetToolPolicyParametersForDelegatee ::
  "address \<Rightarrow> ledger \<Rightarrow> uint256 \<Rightarrow> string \<Rightarrow> address \<Rightarrow> string list \<Rightarrow> bytes list
     \<Rightarrow> PKPToolPolicyErrors + ledger" where
  "batchSetToolPolicyParametersForDelegatee msg_sender w pkpTokenId toolIpfsCid delegatee
       parameterNames parameterValues =
     (case onlyPKPOwner msg_sender (layout w) pkpTokenId of
        Inl e \<Rightarrow> Inl e
      | Inr _ \<Rightarrow>
          if length parameterNames \<noteq> length parameterValues then Inl ArrayLengthMismatch
          else batchSetLoop msg_sender w pkpTokenId toolIpfsCid delegatee
                 parameterNames parameterValues 0)"

function batchRemoveLoop ::
  "address \<Rightarrow> ledger \<Rightarrow> uint256 \<Rightarrow> string \<Rightarrow> address \<Rightarrow> string list \<Rightarrow> nat
     \<Rightarrow> PKPToolPolicyErrors + ledger" where
  "batchRemoveLoop msg_sender w pkpTokenId toolIpfsCid delegatee parameterNames i =
     (if i < length parameterNames then
        (case removeToolPolicyParameterForDelegatee msg_sender w pkpTokenId toolIpfsCid
                delegatee (parameterNames ! i) of
           Inl e \<Rightarrow> Inl e
         | Inr w' \<Rightarrow>
             batchRemoveLoop msg_sender w' pkpTokenId toolIpfsCid delegatee parameterNames (Suc i))
      else Inr w)"
  by pat_completeness auto
termination
  by (relation "measure (\<lambda>(s, w, p, c, d, ns, i). length ns - i)") auto

definition batchRemoveToolPolicyParametersForDelegatee ::
  "address \<Rightarrow> ledger \<Rightarrow> uint256 \<Rightarrow> string \<Rightarrow> address \<Rightarrow> string list
     \<Rightarrow> PKPToolPolicyErrors + ledger" where
  "batchRemoveToolPolicyParametersForDelegatee msg_sender w pkpTokenId toolIpfsCid delegatee
       parameterNames =
     (case onlyPKPOwner msg_sender (layout w) pkpTokenId of
        Inl e \<Rightarrow> Inl e
      | Inr _ \<Rightarrow>
          batchRemoveLoop msg_sender w pkpTokenId toolIpfsCid delegatee parameterNames 0)"

text \<open>
  The spec's words for the batch call with arrays of one length: "executes as an ordered
  sequence of the single-item operation". \<open>setEach\<close> is that sequence over a list of
  (name, value) pairs, stopping at the first call that reverts.
\<close>

fun setEach ::
  "address \<Rightarrow> ledger \<Rightarrow> uint256 \<Rightarrow> string \<Rightarrow> address \<Rightarrow> (string \<times> bytes) list
     \<Rightarrow> PKPToolPolicyErrors + ledger" where
  "setEach msg_sender w pkpTokenId toolIpfsCid delegatee [] = Inr w"
| "setEach msg_sender w pkpTokenId toolIpfsCid delegatee ((n, v) # ps) =
     (case setToolPolicyParameterForDelegatee msg_sender w pkpTokenId toolIpfsCid delegatee n v of
        Inl e \<Rightarrow> Inl e
      | Inr w' \<Rightarrow> setEach msg_sender w' pkpTokenId toolIpfsCid delegatee ps)"

text \<open>
  Invariant (d) of the spec's data model for one (PKP, tool, delegatee) triple: the name
  list has no duplicate, and a name outside the list has no stored value.
\<close>

definition namesConsistent :: "ToolInfo \<Rightarrow> address \<Rightarrow> bool" where
  "namesConsistent ti delegatee =
     (distinct (policyParameterNames ti delegatee) \<and>
      (\<forall>n. n \<notin> set (policyParameterNames ti delegatee) \<longrightarrow> policyParameters ti delegatee n = []))"

text \<open>The storage of a freshly deployed contract: every mapping at its default.\<close>

definition emptyLayout :: "(uint256 \<Rightarrow> address) \<Rightarrow> Layout" where
  "emptyLayout owners =
     \<lparr>pkpStore = (\<lambda>_. \<lparr>toolCids = {}, toolMap = (\<lambda>_.
        \<lparr>policyParameterNames = (\<lambda>_. []), policyParameters = (\<lambda>_ _. [])\<rparr>)\<rparr>),
      pkpOwner = owners\<rparr>"

text \<open>
  The ledgers the contract can be in: the deployed one, and what it becomes by a call
  of this facet that does not revert. Modelled from the spec: tools are registered
  "by an out-of-scope registration flow" and a PKP can change its owner; neither
  touches the parameters.
\<close>

inductive reachable :: "ledger \<Rightarrow> bool" where
  deployed: "reachable \<lparr>layout = emptyLayout owners, emitted = []\<rparr>"
| registered:
    "reachable w \<Longrightarrow>
     reachable (w\<lparr>layout := (layout w)\<lparr>pkpStore := (pkpStore (layout w))(p :=
        (pkpStore (layout w) p)\<lparr>toolCids := insert c (toolCids (pkpStore (layout w) p))\<rparr>)\<rparr>\<rparr>)"
| transferred:
    "reachable w \<Longrightarrow> reachable (w\<lparr>layout := (layout w)\<lparr>pkpOwner := owners\<rparr>\<rparr>)"
| parameterSet:
    "reachable w \<Longrightarrow> setToolPolicyParameterForDelegatee s w p c d n v = Inr w' \<Longrightarrow> reachable w'"
| parameterRemoved:
    "reachable w \<Longrightarrow> removeToolPolicyParameterForDelegatee s w p c d n = Inr w' \<Longrightarrow> reachable w'"

text \<open>
  A ledger for the examples: one owner (address 7) for every PKP, the tool \<open>QmTool\<close>
  registered, and three parameters stored for every delegatee.
\<close>

definition exampleLedger :: ledger where
  "exampleLedger =
     \<lparr>layout = \<lparr>pkpStore = (\<lambda>_. \<lparr>toolCids = {''QmTool''}, toolMap = (\<lambda>_.
          \<lparr>policyParameterNames = (\<lambda>_. [''a'', ''b'', ''c'']),
           policyParameters = (\<lambda>_. (\<lambda>_. [])(''a'' := [1], ''b'' := [2], ''c'' := [3]))\<rparr>)\<rparr>),
        pkpOwner = (\<lambda>_. 7)\<rparr>,
      emitted = []\<rparr>"

section \<open>JavaScript values and thrown values (for the TypeScript sources)\<close>

text \<open>
  The values \<open>JSON.parse\<close> can return, and \<open>undefined\<close>. A number is an integer
  value (a number with a fraction is outside the model); the fields of an
  object are an association list, read by the first entry of a key. A \<open>char\<close> is one
  code unit below 256 of a JavaScript string.
\<close>

datatype jsval =
    JUndefined
  | JNull
  | JBool bool
  | JNum int
  | JStr string
  | JArr "jsval list"
  | JObj "(string \<times> jsval) list"

text \<open>JavaScript's truthiness, as \<open>if (v)\<close> and \<open>v && ...\<close> test it.\<close>

fun truthy :: "jsval \<Rightarrow> bool" where
  "truthy JUndefined = False"
| "truthy JNull = False"
| "truthy (JBool b) = b"
| "truthy (JNum n) = (n \<noteq> 0)"
| "truthy (JStr s) = (s \<noteq> [])"
| "truthy (JArr xs) = True"
| "truthy (JObj fs) = True"

text \<open>
  Reading a property \<open>v.k\<close>, for the keys the sources read (none of them is a property
  of a built-in prototype): \<open>None\<close> is the TypeError of reading a property of \<open>null\<close> or
  \<open>undefined\<close>.
\<close>

fun js_get :: "jsval \<Rightarrow> string \<Rightarrow> jsval option" where
  "js_get JUndefined k = None"
| "js_get JNull k = None"
| "js_get (JObj fs) k = (case map_of fs k of None \<Rightarrow> Some JUndefined | Some v \<Rightarrow> Some v)"
| "js_get v k = Some JUndefined"

text \<open>Optional chaining \<open>v?.k\<close>.\<close>

fun js_get_opt :: "jsval \<Rightarrow> string \<Rightarrow> jsval" where
  "js_get_opt (JObj fs) k = (case map_of fs k of None \<Rightarrow> JUndefined | Some v \<Rightarrow> v)"
| "js_get_opt v k = JUndefined"

fun join_with :: "string \<Rightarrow> string list \<Rightarrow> string" where
  "join_with sep [] = []"
| "join_with sep [s] = s"
| "join_with sep (s # t # ss) = s @ sep @ join_with sep (t # ss)"

text \<open>
  The string a template literal \<open>`${v}`\<close> and \<open>+\<close> with a string put in place of \<open>v\<close>;
  \<open>None\<close> is the TypeError of a value that cannot be converted. The text of a number is
  what JavaScript's number printing gives, the argument \<open>pr\<close> (it prints a double, so
  it is not the digits of every integer). An array is its elements joined by commas,
  \<open>null\<close> as the empty text. An object from \<open>JSON.parse\<close> is \<open>[object Object]\<close>, unless
  it has a key \<open>toString\<close> of its own: that value is no function, \<open>valueOf\<close> gives
  back the object, and the conversion throws.
\<close>

fun js_to_string :: "(int \<Rightarrow> string) \<Rightarrow> jsval \<Rightarrow> string option" where
  "js_to_string pr JUndefined = Some ''undefined''"
| "js_to_string pr JNull = Some ''null''"
| "js_to_string pr (JBool b) = Some (if b then ''true'' else ''false'')"
| "js_to_string pr (JNum n) = Some (pr n)"
| "js_to_string pr (JStr s) = Some s"
| "js_to_string pr (JArr xs) =
     (let parts = map (\<lambda>x. case x of JUndefined \<Rightarrow> Some [] | JNull \<Rightarrow> Some []
                                | _ \<Rightarrow> js_to_string pr x) xs
      in if None \<in> set parts then None else Some (join_with '','' (map the parts)))"
| "js_to_string pr (JObj fs) =
     (if ''toString'' \<in> set (map fst fs) then None else Some ''[object Object]'')"

text \<open>
  \<open>v += s\<close> for a string \<open>s\<close>: the string of \<open>v\<close> followed by \<open>s\<close>, or the TypeError
  of converting \<open>v\<close>.
\<close>

definition js_append :: "(int \<Rightarrow> string) \<Rightarrow> jsval \<Rightarrow> string \<Rightarrow> jsval option" where
  "js_append pr v s = (case js_to_string pr v of None \<Rightarrow> None | Some t \<Rightarrow> Some (JStr (t @ s)))"

text \<open>
  What a \<open>catch\<close> clause can receive. Modelled from the spec: errors.ts is not part of
  the sources; \<open>LitAgentError\<close> is the core's tagged error ("every tagged error carries a
  kind, a human-readable message, and a context bag"), an \<open>Error\<close> subclass. \<open>JsError\<close>
  is any other \<open>Error\<close> instance with its message, \<open>NonError\<close> a thrown value that is
  not an \<open>Error\<close>. \<open>OtherErrorType\<close> stands for the members of the enum that the sources
  do not name.
\<close>

datatype LitAgentErrorType =
    TOOL_PERMISSION_FAILED
  | TOOL_POLICY_REGISTRATION_FAILED
  | TOOL_VALIDATION_FAILED
  | TOOL_EXECUTION_FAILED
  | OtherErrorType string

record AgentToolInfo =
  name :: string
  ipfsCid :: string

type_synonym params = "(string \<times> string) list"

datatype 'e details =
  Details
    (tool: "AgentToolInfo option")
    (policy: "jsval option")
    (cid: "string option")
    (givenParams: "params option")
    (originalError: "'e option")

datatype thrown =
    LitAgentError LitAgentErrorType string "thrown details"
  | JsError string
  | NonError jsval

fun isLitAgentError :: "thrown \<Rightarrow> bool" where
  "isLitAgentError (LitAgentError ty msg ctx) = True"
| "isLitAgentError e = False"

text \<open>\<open>error instanceof Error\<close>.\<close>

fun isError :: "thrown \<Rightarrow> bool" where
  "isError (NonError v) = False"
| "isError e = True"

text \<open>\<open>error.message\<close> of an \<open>Error\<close> instance.\<close>

fun messageOf :: "thrown \<Rightarrow> string" where
  "messageOf (LitAgentError ty msg ctx) = msg"
| "messageOf (JsError msg) = msg"
| "messageOf (NonError v) = []"

section \<open>The registry client: setToolPolicy\<close>

text \<open>
  An ethers \<open>BigNumber\<close> is an integer of any size. \<open>mul\<close> multiplies; \<open>div\<close> throws
  on a zero divisor and otherwise truncates towards zero.
\<close>

type_synonym BigNumber = int

definition BigNumber_mul :: "BigNumber \<Rightarrow> BigNumber \<Rightarrow> BigNumber" where
  "BigNumber_mul a b = a * b"

definition BigNumber_div :: "BigNumber \<Rightarrow> BigNumber \<Rightarrow> thrown + BigNumber" where
  "BigNumber_div a b =
     (if b = 0 then Inl (JsError ''division-by-zero'')
      else Inr (sgn a * sgn b * (\<bar>a\<bar> div \<bar>b\<bar>)))"

text \<open>The expression \<open>gasEstimate.mul(120).div(100)\<close> of \<open>finalTx\<close>.\<close>

definition gasLimitOf :: "BigNumber \<Rightarrow> thrown + BigNumber" where
  "gasLimitOf gasEstimate = BigNumber_div (BigNumber_mul gasEstimate 120) 100"

record UnsignedTx =
  tx_to :: string
  tx_data :: string
  gasLimit :: "BigNumber option"

record SetToolPolicyOptions =
  opt_ipfsCid :: string
  opt_policy :: jsval
  opt_version :: string

text \<open>
  What \<open>setToolPolicy\<close> is given and calls: the contract (its address and its ABI
  encoder), the ABI coder, the provider, the signing callback and the serialisation of
  ethers. Each call that can throw returns a sum.
\<close>

record RegistryEnv =
  contractAddress :: string
  abiEncode :: "jsval \<Rightarrow> thrown + string"
  encodeFunctionData :: "string \<Rightarrow> string \<Rightarrow> string \<Rightarrow> thrown + string"
  estimateGas :: "UnsignedTx \<Rightarrow> string \<Rightarrow> thrown + BigNumber"
  txDigest :: "UnsignedTx \<Rightarrow> thrown + string"
  signCallback :: "string \<Rightarrow> thrown + string"
  serializeSigned :: "UnsignedTx \<Rightarrow> string \<Rightarrow> thrown + string"
  sendTransaction :: "string \<Rightarrow> thrown + string"

text \<open>
  The body of the \<open>try\<close> block, up to the transaction handed to the signer: the final
  transaction and the digest to sign.
\<close>

definition buildFinalTx ::
  "RegistryEnv \<Rightarrow> string \<Rightarrow> SetToolPolicyOptions \<Rightarrow> thrown + UnsignedTx" where
  "buildFinalTx env pkpAddress options =
     (case abiEncode env (opt_policy options) of
        Inl e \<Rightarrow> Inl e
      | Inr encodedPolicy \<Rightarrow>
          (case encodeFunctionData env (opt_ipfsCid options) encodedPolicy (opt_version options) of
             Inl e \<Rightarrow> Inl e
           | Inr d \<Rightarrow>
               let tx = \<lparr>tx_to = contractAddress env, tx_data = d, gasLimit = None\<rparr>
               in (case estimateGas env tx pkpAddress of
                     Inl e \<Rightarrow> Inl e
                   | Inr gasEstimate \<Rightarrow>
                       (case gasLimitOf gasEstimate of
                          Inl e \<Rightarrow> Inl e
                        | Inr lim \<Rightarrow> Inr (tx\<lparr>gasLimit := Some lim\<rparr>)))))"

definition signAndSend :: "RegistryEnv \<Rightarrow> UnsignedTx \<Rightarrow> thrown + string" where
  "signAndSend env finalTx =
     (case txDigest env finalTx of
        Inl e \<Rightarrow> Inl e
      | Inr digest \<Rightarrow>
          (case signCallback env digest of
             Inl e \<Rightarrow> Inl e
           | Inr signature \<Rightarrow>
               (case serializeSigned env finalTx signature of
                  Inl e \<Rightarrow> Inl e
                | Inr signedTx \<Rightarrow> sendTransaction env signedTx)))"

text \<open>
  \<open>setToolPolicy\<close>: any failure of the \<open>try\<close> block is thrown again as one
  \<open>TOOL_POLICY_REGISTRATION_FAILED\<close> error.
\<close>

definition setToolPolicy ::
  "RegistryEnv \<Rightarrow> string \<Rightarrow> SetToolPolicyOptions \<Rightarrow> thrown + string" where
  "setToolPolicy env pkpAddress options =
     (case (case buildFinalTx env pkpAddress options of
              Inl e \<Rightarrow> Inl e
            | Inr finalTx \<Rightarrow> signAndSend env finalTx) of
        Inl e \<Rightarrow>
          Inl (LitAgentError TOOL_POLICY_REGISTRATION_FAILED ''Failed to register policy''
                 (Details None (Some (opt_policy options)) (Some (opt_ipfsCid options)) None
                    (Some e)))
      | Inr sent \<Rightarrow> Inr sent)"

text \<open>A provider and a signer for the examples: every step succeeds.\<close>

definition exampleRegistryEnv :: "BigNumber \<Rightarrow> RegistryEnv" where
  "exampleRegistryEnv g =
     \<lparr>contractAddress = ''0xD78e'',
      abiEncode = (\<lambda>p. Inr ''0xabcd''),
      encodeFunctionData = (\<lambda>c p v. Inr ''0xdata''),
      estimateGas = (\<lambda>tx fromAddr. Inr g),
      txDigest = (\<lambda>tx. Inr ''0xdigest''),
      signCallback = (\<lambda>d. Inr ''0xsig''),
      serializeSigned = (\<lambda>tx s. Inr ''0xsigned''),
      sendTransaction = (\<lambda>s. Inr ''0xhash'')\<rparr>"

section \<open>The admin handler: handleUnpermitToolForDelegatee\<close>

datatype AwCliErrorType =
    ADMIN_UNPERMIT_TOOL_FOR_DELEGATEE_NO_PERMITTED_TOOLS
  | ADMIN_UNPERMIT_TOOL_FOR_DELEGATEE_CANCELLED
  | OtherAwCliErrorType string

text \<open>What the handler's \<open>catch\<close> can receive: an \<open>AwCliError\<close> or anything else.\<close>

datatype cli_thrown =
    AwCliError AwCliErrorType string
  | OtherThrown string

text \<open>A tool of the registry result (\<open>RegisteredToolWithPolicies\<close> or \<open>ToolMetadata\<close>).\<close>

record RegisteredTool =
  rt_name :: string
  rt_ipfsCid :: string

text \<open>
  \<open>RegisteredToolsResult\<close>: three objects keyed by the tool's CID, each an association
  list in the order of \<open>Object.entries\<close>.
\<close>

record RegisteredToolsResult =
  toolsWithPolicies :: "(string \<times> RegisteredTool) list"
  toolsWithoutPolicies :: "(string \<times> RegisteredTool) list"
  toolsUnknownWithPolicies :: "(string \<times> RegisteredTool) list"

record PermittedTool =
  pt_toolIpfsCid :: string

text \<open>
  What the handler does to the outside, in order: the calls of the admin object, the two
  prompts with the choices they show, and the logger.
\<close>

datatype cli_effect =
    CallGetRegisteredTools string
  | CallGetDelegatees string
  | PromptSelectDelegatee "string list"
  | CallGetPermittedTools string string
  | PromptSelectTool "RegisteredTool list"
  | LoggerLoading string
  | CallUnpermitTool string string string
  | LoggerSuccess string
  | LoggerError string

text \<open>
  The admin object and the user: what each call returns or throws, and what the user
  selects at a prompt (\<open>None\<close> when the prompt is cancelled).
\<close>

record AdminEnv =
  getRegisteredToolsAndDelegateesForPkp :: "string \<Rightarrow> cli_thrown + RegisteredToolsResult option"
  getDelegatees :: "string \<Rightarrow> cli_thrown + string list"
  selectDelegatee :: "string list \<Rightarrow> string option"
  getPermittedToolsForDelegatee :: "string \<Rightarrow> string \<Rightarrow> cli_thrown + PermittedTool list"
  selectTool :: "RegisteredTool list \<Rightarrow> RegisteredTool option"
  unpermitToolForDelegatee :: "string \<Rightarrow> string \<Rightarrow> string \<Rightarrow> cli_thrown option"

text \<open>\<open>promptSelectDelegateeToUnpermitToolFor\<close>: an empty answer counts as none.\<close>

definition promptSelectDelegateeToUnpermitToolFor ::
  "AdminEnv \<Rightarrow> string list \<Rightarrow> cli_effect list \<times> (cli_thrown + string)" where
  "promptSelectDelegateeToUnpermitToolFor env delegatees =
     ([PromptSelectDelegatee delegatees],
      (case selectDelegatee env delegatees of
         None \<Rightarrow> Inl (AwCliError ADMIN_UNPERMIT_TOOL_FOR_DELEGATEE_CANCELLED
                        ''Unpermit tool for delegatee cancelled.'')
       | Some dg \<Rightarrow>
           if dg = [] then Inl (AwCliError ADMIN_UNPERMIT_TOOL_FOR_DELEGATEE_CANCELLED
                                 ''Unpermit tool for delegatee cancelled.'')
           else Inr dg))"

text \<open>
  \<open>promptSelectToolToUnpermit\<close>: the choices are the tools with policies, then the
  tools without; the tools of unknown name are not offered.
\<close>

definition promptSelectToolToUnpermit ::
  "AdminEnv \<Rightarrow> RegisteredToolsResult \<Rightarrow> cli_effect list \<times> (cli_thrown + RegisteredTool)" where
  "promptSelectToolToUnpermit env registeredToolsResult =
     (let choices = map snd (toolsWithPolicies registeredToolsResult)
                    @ map snd (toolsWithoutPolicies registeredToolsResult)
      in ([PromptSelectTool choices],
          (case selectTool env choices of
             None \<Rightarrow> Inl (AwCliError ADMIN_UNPERMIT_TOOL_FOR_DELEGATEE_CANCELLED
                            ''Unpermit tool for delegatee cancelled.'')
           | Some t \<Rightarrow> Inr t)))"

text \<open>The test both checks of the handler make: all three objects have no key.\<close>

definition noRegisteredTools :: "RegisteredToolsResult \<Rightarrow> bool" where
  "noRegisteredTools r =
     (toolsWithPolicies r = [] \<and> toolsWithoutPolicies r = [] \<and> toolsUnknownWithPolicies r = [])"

text \<open>The three filters: the entries whose CID is in the set of permitted CIDs.\<close>

definition filterPermitted :: "string list \<Rightarrow> RegisteredToolsResult \<Rightarrow> RegisteredToolsResult" where
  "filterPermitted permittedToolIpfsCids r =
     r\<lparr>toolsWithPolicies :=
         filter (\<lambda>(c, t). c \<in> set permittedToolIpfsCids) (toolsWithPolicies r),
       toolsWithoutPolicies :=
         filter (\<lambda>(c, t). c \<in> set permittedToolIpfsCids) (toolsWithoutPolicies r),
       toolsUnknownWithPolicies :=
         filter (\<lambda>(c, t). c \<in> set permittedToolIpfsCids) (toolsUnknownWithPolicies r)\<rparr>"

text \<open>The part of the \<open>try\<close> block after a delegatee is selected.\<close>

definition unpermitForSelectedDelegatee ::
  "AdminEnv \<Rightarrow> string \<Rightarrow> RegisteredToolsResult \<Rightarrow> string
     \<Rightarrow> cli_effect list \<times> (cli_thrown + unit)" where
  "unpermitForSelectedDelegatee env tokenId registeredTools dg =
     (case getPermittedToolsForDelegatee env tokenId dg of
        Inl e \<Rightarrow> ([CallGetPermittedTools tokenId dg], Inl e)
      | Inr permittedTools \<Rightarrow>
          let permittedToolIpfsCids = map pt_toolIpfsCid permittedTools;
              filtered = filterPermitted permittedToolIpfsCids registeredTools
          in if noRegisteredTools filtered then
               ([CallGetPermittedTools tokenId dg],
                Inl (AwCliError ADMIN_UNPERMIT_TOOL_FOR_DELEGATEE_NO_PERMITTED_TOOLS
                       ''No permitted tools found for this delegatee.''))
             else
               (case promptSelectToolToUnpermit env filtered of
                  (t, Inl e) \<Rightarrow> (CallGetPermittedTools tokenId dg # t, Inl e)
                | (t, Inr selectedTool) \<Rightarrow>
                    (case unpermitToolForDelegatee env tokenId (rt_ipfsCid selectedTool) dg of
                       Some e \<Rightarrow>
                         (CallGetPermittedTools tokenId dg # t
                            @ [LoggerLoading ''Unpermitting tool for delegatee...'',
                               CallUnpermitTool tokenId (rt_ipfsCid selectedTool) dg],
                          Inl e)
                     | None \<Rightarrow>
                         (CallGetPermittedTools tokenId dg # t
                            @ [LoggerLoading ''Unpermitting tool for delegatee...'',
                               CallUnpermitTool tokenId (rt_ipfsCid selectedTool) dg,
                               LoggerSuccess ''Tool unpermitted successfully.''],
                          Inr ()))))"

text \<open>The \<open>try\<close> block of the handler.\<close>

definition handleUnpermit_try ::
  "AdminEnv \<Rightarrow> string \<Rightarrow> cli_effect list \<times> (cli_thrown + unit)" where
  "handleUnpermit_try env tokenId =
     (case getRegisteredToolsAndDelegateesForPkp env tokenId of
        Inl e \<Rightarrow> ([CallGetRegisteredTools tokenId], Inl e)
      | Inr None \<Rightarrow>
          ([CallGetRegisteredTools tokenId],
           Inl (AwCliError ADMIN_UNPERMIT_TOOL_FOR_DELEGATEE_NO_PERMITTED_TOOLS
                  ''No permitted tools found.''))
      | Inr (Some registeredTools) \<Rightarrow>
          if noRegisteredTools registeredTools then
            ([CallGetRegisteredTools tokenId],
             Inl (AwCliError ADMIN_UNPERMIT_TOOL_FOR_DELEGATEE_NO_PERMITTED_TOOLS
                    ''No permitted tools found.''))
          else
            (case getDelegatees env tokenId of
               Inl e \<Rightarrow> ([CallGetRegisteredTools tokenId, CallGetDelegatees tokenId], Inl e)
             | Inr delegatees \<Rightarrow>
                 (case promptSelectDelegateeToUnpermitToolFor env delegatees of
                    (t, Inl e) \<Rightarrow>
                      ([CallGetRegisteredTools tokenId, CallGetDelegatees tokenId] @ t, Inl e)
                  | (t, Inr dg) \<Rightarrow>
                      (case unpermitForSelectedDelegatee env tokenId registeredTools dg of
                         (t', r) \<Rightarrow>
                           ([CallGetRegisteredTools tokenId, CallGetDelegatees tokenId] @ t @ t',
                            r)))))"

text \<open>
  The handler: its \<open>catch\<close> logs the two conditions it knows and returns; any other
  thrown value is thrown again.
\<close>

definition handleUnpermitToolForDelegatee ::
  "AdminEnv \<Rightarrow> string \<Rightarrow> cli_effect list \<times> (cli_thrown + unit)" where
  "handleUnpermitToolForDelegatee env tokenId =
     (case handleUnpermit_try env tokenId of
        (t, Inr u) \<Rightarrow> (t, Inr u)
      | (t, Inl (AwCliError ty msg)) \<Rightarrow>
          if ty = ADMIN_UNPERMIT_TOOL_FOR_DELEGATEE_NO_PERMITTED_TOOLS
          then (t @ [LoggerError ''No permitted tools found.''], Inr ())
          else if ty = ADMIN_UNPERMIT_TOOL_FOR_DELEGATEE_CANCELLED
          then (t @ [LoggerError ''Unpermit tool for delegatee cancelled.''], Inr ())
          else (t, Inl (AwCliError ty msg))
      | (t, Inl (OtherThrown x)) \<Rightarrow> (t, Inl (OtherThrown x)))"

text \<open>
  The spec's words: the PKP's registered tool set (the keys of the three objects) and a
  prompt among the effects.
\<close>

definition registeredCids :: "RegisteredToolsResult \<Rightarrow> string set" where
  "registeredCids r =
     set (map fst (toolsWithPolicies r)) \<union> set (map fst (toolsWithoutPolicies r))
       \<union> set (map fst (toolsUnknownWithPolicies r))"

fun isPrompt :: "cli_effect \<Rightarrow> bool" where
  "isPrompt (PromptSelectDelegatee ds) = True"
| "isPrompt (PromptSelectTool ts) = True"
| "isPrompt e = False"

text \<open>
  An admin object for the examples: one registered tool with a policy, one delegatee,
  whom the user selects, and no tool permitted for that delegatee.
\<close>

definition exampleAdminEnv :: AdminEnv where
  "exampleAdminEnv =
     \<lparr>getRegisteredToolsAndDelegateesForPkp = (\<lambda>_. Inr (Some
         \<lparr>toolsWithPolicies = [(''QmA'', \<lparr>rt_name = ''Swap'', rt_ipfsCid = ''QmA''\<rparr>)],
          toolsWithoutPolicies = [], toolsUnknownWithPolicies = []\<rparr>)),
      getDelegatees = (\<lambda>_. Inr [''0xD1'']),
      selectDelegatee = (\<lambda>ds. Some ''0xD1''),
      getPermittedToolsForDelegatee = (\<lambda>_ _. Inr []),
      selectTool = (\<lambda>_. None),
      unpermitToolForDelegatee = (\<lambda>_ _ _. None)\<rparr>"

text \<open>The same admin object with nothing registered under the PKP.\<close>

definition emptyAdminEnv :: AdminEnv where
  "emptyAdminEnv =
     exampleAdminEnv\<lparr>getRegisteredToolsAndDelegateesForPkp := (\<lambda>_. Inr None)\<rparr>"

section \<open>The execution pipeline: LitAgent.executeTool\<close>

text \<open>
  The raw result of \<open>executeAction\<close>: two texts, an absent one being the empty string
  (both are falsy). The value \<open>executeTool\<close> resolves with: \<open>reason\<close> and \<open>result\<close> are
  \<open>None\<close> where the object literal has no such key.
\<close>

record RawResult =
  response :: string
  logs :: string

record ExecuteToolResult =
  success :: bool
  reason :: "jsval option"
  result :: "RawResult option"

text \<open>
  The calls the pipeline makes on its collaborators, in order. Each carries its
  arguments, so that a trace tells how often and with what a collaborator was called.
\<close>

datatype agent_call =
    CallFindTool string
  | CallHandleToolPermission AgentToolInfo
  | CallOnPolicyRegistered string
  | CallConsoleLog thrown
  | CallValidateAndCollectParameters AgentToolInfo params
  | CallGetToolPolicy string
  | CallDecodePolicy string string
  | CallValidateParamsAgainstPolicy AgentToolInfo params jsval
  | CallFailedPolicyCallback AgentToolInfo params jsval thrown
  | CallExecuteAction string params
  | CallJSONParse string

text \<open>
  The collaborators: the utilities of the agent (not part of the sources), the signer,
  the tool registry and \<open>JSON.parse\<close>. \<open>Inl\<close> is what a call throws. The permission,
  parameter and new-policy callbacks are only handed on to \<open>handleToolPermission\<close> and
  \<open>validateAndCollectParameters\<close>, so they are part of these two. \<open>decodePolicy\<close> is
  \<open>getToolFromRegistry(tool.name).Policy.decode(policy)\<close>. \<open>numberToString\<close> is the
  text JavaScript prints for a number.
\<close>

record AgentDeps =
  findTool :: "string \<Rightarrow> thrown + AgentToolInfo"
  handleToolPermission :: "AgentToolInfo \<Rightarrow> thrown + string option"
  validateAndCollectParameters :: "AgentToolInfo \<Rightarrow> params \<Rightarrow> thrown + params"
  getToolPolicy :: "string \<Rightarrow> thrown + string"
  decodePolicy :: "string \<Rightarrow> string \<Rightarrow> thrown + jsval"
  validateParamsAgainstPolicy :: "AgentToolInfo \<Rightarrow> params \<Rightarrow> jsval \<Rightarrow> thrown option"
  executeAction :: "string \<Rightarrow> params \<Rightarrow> thrown + RawResult"
  JSON_parse :: "string \<Rightarrow> thrown + jsval"
  numberToString :: "int \<Rightarrow> string"

text \<open>The two callbacks of \<open>options\<close> that \<open>executeTool\<close> calls itself.\<close>

record AgentOptions =
  failedPolicyCallback ::
    "(AgentToolInfo \<Rightarrow> params \<Rightarrow> jsval \<Rightarrow> thrown \<Rightarrow> thrown + params option) option"
  onPolicyRegistered :: "(string \<Rightarrow> thrown option) option"

definition failureResult :: "string \<Rightarrow> ExecuteToolResult" where
  "failureResult msg = \<lparr>success = False, reason = Some (JStr msg), result = None\<rparr>"

subsection \<open>The permission stage\<close>

text \<open>The inner \<open>try\<close> block: the permission utility, then the notification.\<close>

definition permissionAttempt ::
  "AgentDeps \<Rightarrow> AgentOptions \<Rightarrow> AgentToolInfo \<Rightarrow> agent_call list \<times> (thrown + unit)" where
  "permissionAttempt deps options t =
     (case handleToolPermission deps t of
        Inl e \<Rightarrow> ([CallHandleToolPermission t], Inl e)
      | Inr txHash \<Rightarrow>
          (case txHash of
             None \<Rightarrow> ([CallHandleToolPermission t], Inr ())
           | Some h \<Rightarrow>
               if h = [] then ([CallHandleToolPermission t], Inr ())
               else (case onPolicyRegistered options of
                       None \<Rightarrow> ([CallHandleToolPermission t], Inr ())
                     | Some notify \<Rightarrow>
                         (case notify h of
                            Some e \<Rightarrow>
                              ([CallHandleToolPermission t, CallOnPolicyRegistered h], Inl e)
                          | None \<Rightarrow>
                              ([CallHandleToolPermission t, CallOnPolicyRegistered h], Inr ())))))"

text \<open>
  Its \<open>catch\<close>: \<open>Inr (Some r)\<close> is the \<open>return r\<close> of the two conditions that end the
  call with a failure value, \<open>Inr None\<close> lets the pipeline go on, \<open>Inl\<close> throws on.
\<close>

definition permissionStage ::
  "AgentDeps \<Rightarrow> AgentOptions \<Rightarrow> AgentToolInfo
     \<Rightarrow> agent_call list \<times> (thrown + ExecuteToolResult option)" where
  "permissionStage deps options t =
     (case permissionAttempt deps options t of
        (tr, Inr u) \<Rightarrow> (tr, Inr None)
      | (tr, Inl e) \<Rightarrow>
          (case e of
             LitAgentError ty msg ctx \<Rightarrow>
               if ty = TOOL_PERMISSION_FAILED \<and> msg = ''Permission denied by user''
               then (tr, Inr (Some (failureResult msg)))
               else if ty = TOOL_POLICY_REGISTRATION_FAILED
               then (tr, Inr (Some (failureResult msg)))
               else (tr @ [CallConsoleLog e], Inl e)
           | _ \<Rightarrow> (tr @ [CallConsoleLog e], Inl e)))"

subsection \<open>The policy-fetch stage\<close>

text \<open>The \<open>try\<close> block: the decoded policy, \<open>null\<close> when the policy text is empty.\<close>

definition policyFetchAttempt ::
  "AgentDeps \<Rightarrow> string \<Rightarrow> AgentToolInfo \<Rightarrow> agent_call list \<times> (thrown + jsval)" where
  "policyFetchAttempt deps c t =
     (case getToolPolicy deps c of
        Inl e \<Rightarrow> ([CallGetToolPolicy c], Inl e)
      | Inr currentPolicy \<Rightarrow>
          if length currentPolicy > 0 then
            (case decodePolicy deps (name t) currentPolicy of
               Inl e \<Rightarrow> ([CallGetToolPolicy c, CallDecodePolicy (name t) currentPolicy], Inl e)
             | Inr decoded \<Rightarrow>
                 ([CallGetToolPolicy c, CallDecodePolicy (name t) currentPolicy], Inr decoded))
          else ([CallGetToolPolicy c], Inr JNull))"

text \<open>
  Its \<open>catch\<close>: an \<open>Error\<close> with exactly this message is dropped and \<open>decodedPolicy\<close>
  keeps its initial \<open>null\<close>; anything else is thrown again.
\<close>

definition policyFetchStage ::
  "AgentDeps \<Rightarrow> string \<Rightarrow> AgentToolInfo \<Rightarrow> agent_call list \<times> (thrown + jsval)" where
  "policyFetchStage deps c t =
     (case policyFetchAttempt deps c t of
        (tr, Inr decoded) \<Rightarrow> (tr, Inr decoded)
      | (tr, Inl e) \<Rightarrow>
          if \<not> (isError e \<and> messageOf e = ''Tool policy manager not initialized'')
          then (tr, Inl e)
          else (tr, Inr JNull))"

subsection \<open>The validation stage\<close>

text \<open>
  The \<open>catch\<close> of the first validation, for the error \<open>e\<close> it threw. A second failure,
  like a failure of the callback, leaves the \<open>catch\<close> block as it is thrown.
\<close>

definition validationFailed ::
  "AgentDeps \<Rightarrow> AgentOptions \<Rightarrow> AgentToolInfo \<Rightarrow> params \<Rightarrow> jsval \<Rightarrow> thrown
     \<Rightarrow> agent_call list \<times> (thrown + params)" where
  "validationFailed deps options t validatedParams decodedPolicy e =
     (case failedPolicyCallback options of
        Some callback \<Rightarrow>
          if isError e then
            (case callback t validatedParams decodedPolicy e of
               Inl e' \<Rightarrow>
                 ([CallFailedPolicyCallback t validatedParams decodedPolicy e], Inl e')
             | Inr (Some newParams) \<Rightarrow>
                 (case validateParamsAgainstPolicy deps t newParams decodedPolicy of
                    Some e2 \<Rightarrow>
                      ([CallFailedPolicyCallback t validatedParams decodedPolicy e,
                        CallValidateParamsAgainstPolicy t newParams decodedPolicy], Inl e2)
                  | None \<Rightarrow>
                      ([CallFailedPolicyCallback t validatedParams decodedPolicy e,
                        CallValidateParamsAgainstPolicy t newParams decodedPolicy],
                       Inr newParams))
             | Inr None \<Rightarrow>
                 ([CallFailedPolicyCallback t validatedParams decodedPolicy e],
                  Inl (LitAgentError TOOL_VALIDATION_FAILED (messageOf e)
                         (Details (Some t) (Some decodedPolicy) None None (Some e)))))
          else
            ([], Inl (LitAgentError TOOL_VALIDATION_FAILED
                        ''Parameters do not meet policy requirements''
                        (Details (Some t) (Some decodedPolicy) None None (Some e))))
      | None \<Rightarrow>
          ([], Inl (LitAgentError TOOL_VALIDATION_FAILED
                      (if isError e then messageOf e
                       else ''Parameters do not meet policy requirements'')
                      (Details (Some t) (Some decodedPolicy) None None (Some e)))))"

definition validationStage ::
  "AgentDeps \<Rightarrow> AgentOptions \<Rightarrow> AgentToolInfo \<Rightarrow> params \<Rightarrow> jsval
     \<Rightarrow> agent_call list \<times> (thrown + params)" where
  "validationStage deps options t finalParams decodedPolicy =
     (if truthy decodedPolicy then
        (case validateParamsAgainstPolicy deps t finalParams decodedPolicy of
           None \<Rightarrow> ([CallValidateParamsAgainstPolicy t finalParams decodedPolicy], Inr finalParams)
         | Some e \<Rightarrow>
             (case validationFailed deps options t finalParams decodedPolicy e of
                (tr, r) \<Rightarrow>
                  (CallValidateParamsAgainstPolicy t finalParams decodedPolicy # tr, r)))
      else ([], Inr finalParams))"

subsection \<open>The interpretation of the raw result\<close>

text \<open>
  One \<open>errorMessage += `label${v}`\<close> under its \<open>if (v)\<close>: nothing happens for a falsy
  \<open>v\<close>; otherwise the text of \<open>v\<close> and then the text of the message so far are taken,
  and either conversion can throw (\<open>None\<close>).
\<close>

definition appendDetail ::
  "(int \<Rightarrow> string) \<Rightarrow> string \<Rightarrow> jsval \<Rightarrow> jsval \<Rightarrow> jsval option" where
  "appendDetail pr label v errorMessage =
     (if truthy v then
        (case js_to_string pr v of
           None \<Rightarrow> None
         | Some t \<Rightarrow> js_append pr errorMessage (label @ t))
      else Some errorMessage)"

text \<open>
  The message of a response whose \<open>status\<close> is \<open>"error"\<close>: the \<open>error\<close> field, then the
  three details, each appended when it is truthy. \<open>None\<close> is a TypeError thrown on the
  way.
\<close>

definition errorMessageOf :: "(int \<Rightarrow> string) \<Rightarrow> jsval \<Rightarrow> jsval option" where
  "errorMessageOf pr parsed =
     (let errorMessage = js_get_opt parsed ''error'';
          details = js_get_opt parsed ''details''
      in if truthy details then
           (case appendDetail pr ''\<newline>Reason: '' (js_get_opt details ''reason'') errorMessage of
              None \<Rightarrow> None
            | Some m1 \<Rightarrow>
                (case appendDetail pr ''\<newline>Code: '' (js_get_opt details ''code'') m1 of
                   None \<Rightarrow> None
                 | Some m2 \<Rightarrow>
                     appendDetail pr ''\<newline>Details: ''
                       (js_get_opt (js_get_opt details ''error'') ''message'') m2))
         else Some errorMessage)"

text \<open>
  The \<open>try\<close> block around \<open>JSON.parse\<close>: \<open>Some\<close> of the message when the response
  parses, its \<open>status\<close> is the string \<open>"error"\<close> and the message is built. Whatever
  is thrown inside the block is caught and dropped: a parse error, the TypeError of
  reading \<open>status\<close> of \<open>null\<close>, and a TypeError while the message is built.
\<close>

definition structuredError :: "AgentDeps \<Rightarrow> string \<Rightarrow> jsval option" where
  "structuredError deps text =
     (case JSON_parse deps text of
        Inl e \<Rightarrow> None
      | Inr parsed \<Rightarrow>
          (case js_get parsed ''status'' of
             None \<Rightarrow> None
           | Some st \<Rightarrow>
               if st = JStr ''error'' then errorMessageOf (numberToString deps) parsed
               else None))"

text \<open>\<open>logs.includes(p)\<close>.\<close>

fun includes_str :: "string \<Rightarrow> string \<Rightarrow> bool" where
  "includes_str [] p = (p = [])"
| "includes_str (c # cs) p = (if take (length p) (c # cs) = p then True else includes_str cs p)"

text \<open>
  A match of a regular expression \<open>/p([^\n]+)/\<close> for a literal text \<open>p\<close>, its first
  group: at the leftmost place where \<open>p\<close> is followed by a character other than a
  newline, the characters up to the next newline or the end.
\<close>

fun firstGroupAfter :: "string \<Rightarrow> string \<Rightarrow> string option" where
  "firstGroupAfter p [] = None"
| "firstGroupAfter p (c # cs) =
     (if take (length p) (c # cs) = p
         \<and> takeWhile (\<lambda>x. x \<noteq> CHR ''\<newline>'') (drop (length p) (c # cs)) \<noteq> []
      then Some (takeWhile (\<lambda>x. x \<noteq> CHR ''\<newline>'') (drop (length p) (c # cs)))
      else firstGroupAfter p cs)"

text \<open>\<open>logs.match(/Error:([^\n]+)/)\<close>, its group 1 (\<open>None\<close> when there is no match).\<close>

definition errorMatch :: "string \<Rightarrow> string option" where
  "errorMatch s = firstGroupAfter ''Error:'' s"

text \<open>\<open>String.prototype.trim\<close>, for the white space among the code units below 256.\<close>

definition is_js_space :: "char \<Rightarrow> bool" where
  "is_js_space c =
     (c \<in> set [CHR 0x09, CHR ''\<newline>'', CHR 0x0B, CHR 0x0C, CHR 0x0D, CHR '' '', CHR 0xA0])"

definition trim :: "string \<Rightarrow> string" where
  "trim s = rev (dropWhile is_js_space (rev (dropWhile is_js_space s)))"

definition interpretResult ::
  "AgentDeps \<Rightarrow> RawResult \<Rightarrow> agent_call list \<times> ExecuteToolResult" where
  "interpretResult deps raw =
     (let tr = (if response raw \<noteq> [] then [CallJSONParse (response raw)] else []);
          structured = (if response raw \<noteq> [] then structuredError deps (response raw) else None)
      in case structured of
           Some errorMessage \<Rightarrow>
             (tr, \<lparr>success = False, reason = Some errorMessage, result = Some raw\<rparr>)
         | None \<Rightarrow>
             if logs raw \<noteq> [] \<and> includes_str (logs raw) ''Error:'' then
               (case errorMatch (logs raw) of
                  Some m \<Rightarrow>
                    (tr, \<lparr>success = False,
                          reason = Some (JStr (''Lit Action error: '' @ trim m)),
                          result = Some raw\<rparr>)
                | None \<Rightarrow> (tr, \<lparr>success = True, reason = None, result = Some raw\<rparr>))
             else (tr, \<lparr>success = True, reason = None, result = Some raw\<rparr>))"

subsection \<open>The pipeline\<close>

text \<open>The stages after the permission stage let the pipeline through.\<close>

definition afterPermission ::
  "AgentDeps \<Rightarrow> AgentOptions \<Rightarrow> string \<Rightarrow> params \<Rightarrow> AgentToolInfo
     \<Rightarrow> agent_call list \<times> (thrown + ExecuteToolResult)" where
  "afterPermission deps options c initialParams t =
     (case validateAndCollectParameters deps t initialParams of
        Inl e \<Rightarrow> ([CallValidateAndCollectParameters t initialParams], Inl e)
      | Inr finalParams \<Rightarrow>
          (case policyFetchStage deps c t of
             (tr1, Inl e) \<Rightarrow> (CallValidateAndCollectParameters t initialParams # tr1, Inl e)
           | (tr1, Inr decodedPolicy) \<Rightarrow>
               (case validationStage deps options t finalParams decodedPolicy of
                  (tr2, Inl e) \<Rightarrow>
                    (CallValidateAndCollectParameters t initialParams # tr1 @ tr2, Inl e)
                | (tr2, Inr validatedParams) \<Rightarrow>
                    (case executeAction deps c validatedParams of
                       Inl e \<Rightarrow>
                         (CallValidateAndCollectParameters t initialParams # tr1 @ tr2
                            @ [CallExecuteAction c validatedParams], Inl e)
                     | Inr raw \<Rightarrow>
                         (case interpretResult deps raw of
                            (tr3, r) \<Rightarrow>
                              (CallValidateAndCollectParameters t initialParams # tr1 @ tr2
                                 @ [CallExecuteAction c validatedParams] @ tr3, Inr r))))))"

text \<open>The outer \<open>try\<close> block: \<open>Inl\<close> is what reaches the outer \<open>catch\<close>.\<close>

definition executeTool_try ::
  "AgentDeps \<Rightarrow> AgentOptions \<Rightarrow> string \<Rightarrow> params
     \<Rightarrow> agent_call list \<times> (thrown + ExecuteToolResult)" where
  "executeTool_try deps options c initialParams =
     (case findTool deps c of
        Inl e \<Rightarrow> ([CallFindTool c], Inl e)
      | Inr t \<Rightarrow>
          (case permissionStage deps options t of
             (tr, Inl e) \<Rightarrow> (CallFindTool c # tr, Inl e)
           | (tr, Inr (Some r)) \<Rightarrow> (CallFindTool c # tr, Inr r)
           | (tr, Inr None) \<Rightarrow>
               (case afterPermission deps options c initialParams t of
                  (tr', r) \<Rightarrow> (CallFindTool c # tr @ tr', r))))"

text \<open>
  The outer \<open>catch\<close>, for what the \<open>try\<close> block threw: a \<open>LitAgentError\<close> becomes a
  failure value that is returned; anything else is wrapped into a new
  \<open>TOOL_EXECUTION_FAILED\<close> error, which is thrown.
\<close>

definition outerCatch :: "string \<Rightarrow> params \<Rightarrow> thrown \<Rightarrow> thrown + ExecuteToolResult" where
  "outerCatch c initialParams e =
     (if isLitAgentError e then Inr (failureResult (messageOf e))
      else Inl (LitAgentError TOOL_EXECUTION_FAILED
                  (if isError e then messageOf e else ''Failed to execute tool'')
                  (Details None None (Some c) (Some initialParams) (Some e))))"

text \<open>
  \<open>executeTool\<close>: \<open>Inr\<close> is the value the promise resolves with, \<open>Inl\<close> the error it
  rejects with.
\<close>

definition executeTool ::
  "AgentDeps \<Rightarrow> AgentOptions \<Rightarrow> string \<Rightarrow> params
     \<Rightarrow> agent_call list \<times> (thrown + ExecuteToolResult)" where
  "executeTool deps options c initialParams =
     (case executeTool_try deps options c initialParams of
        (tr, Inr r) \<Rightarrow> (tr, Inr r)
      | (tr, Inl e) \<Rightarrow> (tr, outerCatch c initialParams e))"

subsection \<open>Collaborators for the examples\<close>

definition exampleTool :: AgentToolInfo where
  "exampleTool = \<lparr>name = ''SendERC20'', ipfsCid = ''QmTool''\<rparr>"

text \<open>\<open>JSON.parse\<close> on the four texts of the examples; any other text is no JSON.\<close>

definition exampleParse :: "string \<Rightarrow> thrown + jsval" where
  "exampleParse text =
     (if text = ''{\"status\":\"error\",\"error\":\"bad input\",\"details\":{\"reason\":\"x\",\"code\":42}}''
      then Inr (JObj [(''status'', JStr ''error''), (''error'', JStr ''bad input''),
                      (''details'', JObj [(''reason'', JStr ''x''), (''code'', JNum 42)])])
      else if text = ''{\"status\":\"error\",\"error\":\"bad\",\"details\":{\"code\":0}}''
      then Inr (JObj [(''status'', JStr ''error''), (''error'', JStr ''bad''),
                      (''details'', JObj [(''code'', JNum 0)])])
      else if text = ''{\"status\":\"error\",\"error\":\"bad\",\"details\":{\"reason\":{\"toString\":1}}}''
      then Inr (JObj [(''status'', JStr ''error''), (''error'', JStr ''bad''),
                      (''details'', JObj [(''reason'', JObj [(''toString'', JNum 1)])])])
      else if text = ''{\"status\":\"success\"}''
      then Inr (JObj [(''status'', JStr ''success'')])
      else Inl (JsError ''Unexpected token''))"

text \<open>The text of the two numbers of the examples, as JavaScript prints them.\<close>

definition examplePrinter :: "int \<Rightarrow> string" where
  "examplePrinter n = (if n = 42 then ''42'' else if n = 0 then ''0'' else ''NaN'')"

text \<open>
  A tool that is found and permitted, a policy with a limit, a validator that accepts
  only the amount 5, and an action that answers with a success response.
\<close>

definition exampleDeps :: AgentDeps where
  "exampleDeps =
     \<lparr>findTool = (\<lambda>c. if c = ''QmTool'' then Inr exampleTool
                       else Inl (JsError ''Tool not found'')),
      handleToolPermission = (\<lambda>t. Inr None),
      validateAndCollectParameters = (\<lambda>t ps. Inr ps),
      getToolPolicy = (\<lambda>c. Inr ''0x01''),
      decodePolicy = (\<lambda>n p. Inr (JObj [(''maxAmount'', JNum 10)])),
      validateParamsAgainstPolicy =
        (\<lambda>t ps pol. if map_of ps ''amount'' = Some ''5'' then None
                     else Some (JsError ''amount exceeds limit'')),
      executeAction = (\<lambda>c ps. Inr \<lparr>response = ''{\"status\":\"success\"}'', logs = []\<rparr>),
      JSON_parse = exampleParse,
      numberToString = examplePrinter\<rparr>"

definition noCallbacks :: AgentOptions where
  "noCallbacks = \<lparr>failedPolicyCallback = None, onPolicyRegistered = None\<rparr>"

text \<open>A \<open>failedPolicyCallback\<close> that answers with the amount it is given.\<close>

definition retryWith :: "string \<Rightarrow> AgentOptions" where
  "retryWith amount =
     \<lparr>failedPolicyCallback = Some (\<lambda>t ps pol e. Inr (Some [(''amount'', amount)])),
      onPolicyRegistered = None\<rparr>"

text \<open>A \<open>failedPolicyCallback\<close> that gives no replacement.\<close>

definition retryDeclined :: AgentOptions where
  "retryDeclined =
     \<lparr>failedPolicyCallback = Some (\<lambda>t ps pol e. Inr None), onPolicyRegistered = None\<rparr>"

text \<open>
  The spec's words for one detail of the message: its label and text when it is truthy,
  nothing when it is falsy; \<open>None\<close> when its text cannot be taken.
\<close>

definition detailText :: "(int \<Rightarrow> string) \<Rightarrow> string \<Rightarrow> jsval \<Rightarrow> string option" where
  "detailText pr label v =
     (if truthy v then (case js_to_string pr v of None \<Rightarrow> None | Some t \<Rightarrow> Some (label @ t))
      else Some [])"

text \<open>
  Collaborators whose policy decoding throws a tagged error with the message that the
  policy-fetch stage drops.
\<close>

definition decodeFailsDeps :: AgentDeps where
  "decodeFailsDeps =
     exampleDeps\<lparr>decodePolicy := (\<lambda>n p. Inl (LitAgentError (OtherErrorType ''INIT'')
        ''Tool policy manager not initialized'' (Details None None None None None)))\<rparr>"

text \<open>The calls of the callback and of the validator in a trace.\<close>

fun isCallbackCall :: "agent_call \<Rightarrow> bool" where
  "isCallbackCall (CallFailedPolicyCallback t ps pol e) = True"
| "isCallbackCall x = False"

fun isValidateCall :: "agent_call \<Rightarrow> bool" where
  "isValidateCall (CallValidateParamsAgainstPolicy t ps pol) = True"
| "isValidateCall x = False"

section \<open>Properties of the parameter store\<close>

declare nameFound.simps [simp del]
declare removeName.simps [simp del]
declare batchSetLoop.simps [simp del]
declare batchRemoveLoop.simps [simp del]

subsection \<open>The scans\<close>

lemma nameFound_iff: "nameFound ns n i = (n \<in> set (drop i ns))"
proof (induction ns n i rule: nameFound.induct)
  case (1 ns n i)
  show ?case
  proof (cases "i < length ns")
    case True
    then have d: "drop i ns = ns ! i # drop (Suc i) ns"
      by (simp add: Cons_nth_drop_Suc)
    show ?thesis
      using True 1 by (subst nameFound.simps) (auto simp: d keccak_eq_def)
  next
    case False
    then show ?thesis by (subst nameFound.simps) simp
  qed
qed

lemma removeName_absent: "n \<notin> set (drop i ns) \<Longrightarrow> removeName ns n i = ns"
proof (induction ns n i rule: removeName.induct)
  case (1 ns n i)
  show ?case
  proof (cases "i < length ns")
    case True
    then have d: "drop i ns = ns ! i # drop (Suc i) ns"
      by (simp add: Cons_nth_drop_Suc)
    show ?thesis
      using True 1 by (subst removeName.simps) (auto simp: d keccak_eq_def)
  next
    case False
    then show ?thesis by (subst removeName.simps) simp
  qed
qed

text \<open>
  When the name occurs, the scan stops at its first index \<open>j\<close> and the result is the
  array with the last element moved to \<open>j\<close> and the length shrunk by one.
\<close>

lemma removeName_present:
  "n \<in> set (drop i ns) \<Longrightarrow>
     \<exists>j. i \<le> j \<and> j < length ns \<and> ns ! j = n \<and> (\<forall>k. i \<le> k \<and> k < j \<longrightarrow> ns ! k \<noteq> n) \<and>
         removeName ns n i =
           butlast (if j \<noteq> length ns - 1 then ns[j := ns ! (length ns - 1)] else ns)"
proof (induction ns n i rule: removeName.induct)
  case (1 ns n i)
  have lt: "i < length ns" using 1(2) by (cases "i < length ns") auto
  then have d: "drop i ns = ns ! i # drop (Suc i) ns"
    by (simp add: Cons_nth_drop_Suc)
  show ?case
  proof (cases "ns ! i = n")
    case True
    show ?thesis
      apply (rule exI[of _ i])
      using True lt by (subst removeName.simps) (auto simp: keccak_eq_def)
  next
    case False
    then have "n \<in> set (drop (Suc i) ns)" using 1(2) d by auto
    from 1(1)[OF lt _ this] False obtain j where j: "Suc i \<le> j" "j < length ns" "ns ! j = n"
      "\<forall>k. Suc i \<le> k \<and> k < j \<longrightarrow> ns ! k \<noteq> n"
      "removeName ns n (Suc i) =
         butlast (if j \<noteq> length ns - 1 then ns[j := ns ! (length ns - 1)] else ns)"
      by (auto simp: keccak_eq_def)
    have "\<forall>k. i \<le> k \<and> k < j \<longrightarrow> ns ! k \<noteq> n"
      using j(4) False by (metis Suc_leI le_neq_implies_less)
    moreover have "removeName ns n i = removeName ns n (Suc i)"
      using lt False by (subst removeName.simps) (simp add: keccak_eq_def)
    ultimately show ?thesis using j by (intro exI[of _ j]) auto
  qed
qed

lemma swap_last_set:
  assumes "distinct ns" "j < length ns"
  shows "set (butlast (if j \<noteq> length ns - 1 then ns[j := ns ! (length ns - 1)] else ns))
           = set ns - {ns ! j}"
    and "distinct (butlast (if j \<noteq> length ns - 1 then ns[j := ns ! (length ns - 1)] else ns))"
proof -
  from assms(2) obtain xs l where ns: "ns = xs @ [l]"
    by (cases ns rule: rev_cases) auto
  show "set (butlast (if j \<noteq> length ns - 1 then ns[j := ns ! (length ns - 1)] else ns))
          = set ns - {ns ! j}"
    using assms unfolding ns
    by (auto simp: nth_append list_update_append set_update_distinct butlast_append
        split: if_splits)
  show "distinct (butlast (if j \<noteq> length ns - 1 then ns[j := ns ! (length ns - 1)] else ns))"
    using assms unfolding ns
    by (auto simp: nth_append list_update_append distinct_list_update butlast_append
        split: if_splits)
qed

lemma removeName_distinct:
  assumes "distinct ns"
  shows "distinct (removeName ns n 0)" and "set (removeName ns n 0) = set ns - {n}"
proof -
  show "distinct (removeName ns n 0)"
  proof (cases "n \<in> set ns")
    case True
    then obtain j where "j < length ns" "ns ! j = n"
      "removeName ns n 0 =
         butlast (if j \<noteq> length ns - 1 then ns[j := ns ! (length ns - 1)] else ns)"
      using removeName_present [of n 0 ns] by auto
    then show ?thesis using swap_last_set(2) [OF assms, of j] by simp
  next
    case False
    then show ?thesis using assms by (simp add: removeName_absent)
  qed
  show "set (removeName ns n 0) = set ns - {n}"
  proof (cases "n \<in> set ns")
    case True
    then obtain j where "j < length ns" "ns ! j = n"
      "removeName ns n 0 =
         butlast (if j \<noteq> length ns - 1 then ns[j := ns ! (length ns - 1)] else ns)"
      using removeName_present [of n 0 ns] by auto
    then show ?thesis using swap_last_set(1) [OF assms, of j] by simp
  next
    case False
    then show ?thesis by (simp add: removeName_absent)
  qed
qed

subsection \<open>The effect of one call that passes the checks\<close>

lemma set_ok:
  assumes "s = pkpOwner (layout w) p" "d \<noteq> 0" "c \<in> toolCids (pkpStore (layout w) p)"
  shows "\<exists>w'. setToolPolicyParameterForDelegatee s w p c d n v = Inr w'
     \<and> pkpOwner (layout w') = pkpOwner (layout w)
     \<and> toolCids (pkpStore (layout w') p) = toolCids (pkpStore (layout w) p)
     \<and> policyParameterNames (toolInfoOf (layout w') p c) d =
         (let ns = policyParameterNames (toolInfoOf (layout w) p c) d
          in if n \<in> set ns then ns else ns @ [n])
     \<and> policyParameters (toolInfoOf (layout w') p c) d =
         (policyParameters (toolInfoOf (layout w) p c) d)(n := v)"
  using assms
  by (simp add: setToolPolicyParameterForDelegatee_def onlyPKPOwner_def verifyToolRegistered_def
      Let_def nameFound_iff toolInfoOf_def storeToolInfo_def)

lemma remove_ok:
  assumes "s = pkpOwner (layout w) p" "d \<noteq> 0" "c \<in> toolCids (pkpStore (layout w) p)"
  shows "\<exists>w'. removeToolPolicyParameterForDelegatee s w p c d n = Inr w'
     \<and> pkpOwner (layout w') = pkpOwner (layout w)
     \<and> toolCids (pkpStore (layout w') p) = toolCids (pkpStore (layout w) p)
     \<and> policyParameterNames (toolInfoOf (layout w') p c) d =
         removeName (policyParameterNames (toolInfoOf (layout w) p c) d) n 0
     \<and> policyParameters (toolInfoOf (layout w') p c) d =
         (policyParameters (toolInfoOf (layout w) p c) d)(n := [])"
  using assms
  by (simp add: removeToolPolicyParameterForDelegatee_def onlyPKPOwner_def
      verifyToolRegistered_def Let_def toolInfoOf_def storeToolInfo_def)

subsection \<open>The invariant of a triple is kept by both calls\<close>

lemma namesConsistent_empty: "namesConsistent (toolInfoOf (emptyLayout owners) p c) d"
  by (simp add: namesConsistent_def toolInfoOf_def emptyLayout_def)

lemma namesConsistent_set:
  assumes "namesConsistent (toolInfoOf (layout w) p c) d"
    and "setToolPolicyParameterForDelegatee s w p c d n v = Inr w'"
  shows "namesConsistent (toolInfoOf (layout w') p c) d"
  using assms
  by (auto simp: setToolPolicyParameterForDelegatee_def onlyPKPOwner_def
      verifyToolRegistered_def Let_def nameFound_iff toolInfoOf_def storeToolInfo_def
      namesConsistent_def split: if_splits)

lemma namesConsistent_remove:
  assumes "namesConsistent (toolInfoOf (layout w) p c) d"
    and "removeToolPolicyParameterForDelegatee s w p c d n = Inr w'"
  shows "namesConsistent (toolInfoOf (layout w') p c) d"
  using assms
  by (auto simp: removeToolPolicyParameterForDelegatee_def onlyPKPOwner_def
      verifyToolRegistered_def Let_def toolInfoOf_def storeToolInfo_def
      namesConsistent_def removeName_distinct split: if_splits)

text \<open>A call on one triple leaves the names and values of every other triple alone.\<close>

lemma namesConsistent_set_any:
  assumes "namesConsistent (toolInfoOf (layout w) p c) d"
    and "setToolPolicyParameterForDelegatee s w p' c' d' n v = Inr w'"
  shows "namesConsistent (toolInfoOf (layout w') p c) d"
proof (cases "p' = p \<and> c' = c \<and> d' = d")
  case True
  then show ?thesis using assms namesConsistent_set by blast
next
  case False
  have "policyParameterNames (toolInfoOf (layout w') p c) d
          = policyParameterNames (toolInfoOf (layout w) p c) d
      \<and> policyParameters (toolInfoOf (layout w') p c) d
          = policyParameters (toolInfoOf (layout w) p c) d"
    using assms(2) False
    by (auto simp: setToolPolicyParameterForDelegatee_def onlyPKPOwner_def
        verifyToolRegistered_def Let_def toolInfoOf_def storeToolInfo_def
        split: if_splits)
  then show ?thesis using assms(1) by (simp add: namesConsistent_def)
qed

lemma namesConsistent_remove_any:
  assumes "namesConsistent (toolInfoOf (layout w) p c) d"
    and "removeToolPolicyParameterForDelegatee s w p' c' d' n = Inr w'"
  shows "namesConsistent (toolInfoOf (layout w') p c) d"
proof (cases "p' = p \<and> c' = c \<and> d' = d")
  case True
  then show ?thesis using assms namesConsistent_remove by blast
next
  case False
  have "policyParameterNames (toolInfoOf (layout w') p c) d
          = policyParameterNames (toolInfoOf (layout w) p c) d
      \<and> policyParameters (toolInfoOf (layout w') p c) d
          = policyParameters (toolInfoOf (layout w) p c) d"
    using assms(2) False
    by (auto simp: removeToolPolicyParameterForDelegatee_def onlyPKPOwner_def
        verifyToolRegistered_def Let_def toolInfoOf_def storeToolInfo_def
        split: if_splits)
  then show ?thesis using assms(1) by (simp add: namesConsistent_def)
qed

lemma reachable_namesConsistent:
  "reachable w \<Longrightarrow> namesConsistent (toolInfoOf (layout w) p c) d"
proof (induction arbitrary: p c d rule: reachable.induct)
  case (deployed owners)
  then show ?case by (simp add: namesConsistent_empty)
next
  case (registered w p' c')
  then show ?case
    by (simp add: namesConsistent_def toolInfoOf_def)
next
  case (transferred w owners)
  then show ?case
    by (simp add: namesConsistent_def toolInfoOf_def)
next
  case (parameterSet w s p' c' d' n v w')
  then show ?case using namesConsistent_set_any by blast
next
  case (parameterRemoved w s p' c' d' n w')
  then show ?case using namesConsistent_remove_any by blast
qed

subsection \<open>Sequences of calls\<close>

lemma batchSetLoop_setEach:
  "length ns = length vs \<Longrightarrow>
   batchSetLoop s w p c d ns vs i = setEach s w p c d (drop i (zip ns vs))"
proof (induction s w p c d ns vs i rule: batchSetLoop.induct)
  case (1 s w p c d ns vs i)
  show ?case
  proof (cases "i < length ns")
    case True
    then have dz: "drop i (zip ns vs) = (ns ! i, vs ! i) # drop (Suc i) (zip ns vs)"
      using 1(2) by (simp add: Cons_nth_drop_Suc[symmetric])
    show ?thesis
      using True 1 by (subst batchSetLoop.simps) (auto simp: dz split: sum.splits)
  next
    case False
    then show ?thesis using 1(2) by (subst batchSetLoop.simps) simp
  qed
qed

lemma setEach_same_name:
  assumes "s = pkpOwner (layout w) p" "d \<noteq> 0" "c \<in> toolCids (pkpStore (layout w) p)"
    and "vs \<noteq> []"
  shows "\<exists>w'. setEach s w p c d (map (Pair n) vs) = Inr w'
     \<and> pkpOwner (layout w') = pkpOwner (layout w)
     \<and> toolCids (pkpStore (layout w') p) = toolCids (pkpStore (layout w) p)
     \<and> policyParameterNames (toolInfoOf (layout w') p c) d =
         (let ns = policyParameterNames (toolInfoOf (layout w) p c) d
          in if n \<in> set ns then ns else ns @ [n])
     \<and> policyParameters (toolInfoOf (layout w') p c) d n = last vs"
  using assms
proof (induction vs arbitrary: w)
  case Nil
  then show ?case by simp
next
  case (Cons v vs)
  from set_ok[OF Cons.prems(1,2,3), of n v] obtain w1 where w1:
    "setToolPolicyParameterForDelegatee s w p c d n v = Inr w1"
    "pkpOwner (layout w1) = pkpOwner (layout w)"
    "toolCids (pkpStore (layout w1) p) = toolCids (pkpStore (layout w) p)"
    "policyParameterNames (toolInfoOf (layout w1) p c) d =
       (let ns = policyParameterNames (toolInfoOf (layout w) p c) d
        in if n \<in> set ns then ns else ns @ [n])"
    "policyParameters (toolInfoOf (layout w1) p c) d =
       (policyParameters (toolInfoOf (layout w) p c) d)(n := v)"
    by blast
  show ?case
  proof (cases "vs = []")
    case True
    then show ?thesis using w1 by simp
  next
    case False
    have pre: "s = pkpOwner (layout w1) p" "c \<in> toolCids (pkpStore (layout w1) p)"
      using w1 Cons.prems by (auto simp: Let_def)
    from Cons.IH[OF pre(1) Cons.prems(2) pre(2) False] obtain w' where w':
      "setEach s w1 p c d (map (Pair n) vs) = Inr w'"
      "pkpOwner (layout w') = pkpOwner (layout w1)"
      "toolCids (pkpStore (layout w') p) = toolCids (pkpStore (layout w1) p)"
      "policyParameterNames (toolInfoOf (layout w') p c) d =
         (let ns = policyParameterNames (toolInfoOf (layout w1) p c) d
          in if n \<in> set ns then ns else ns @ [n])"
      "policyParameters (toolInfoOf (layout w') p c) d n = last vs"
      by blast
    show ?thesis
      using w1 w' False by (auto simp: Let_def)
  qed
qed

subsection \<open>Claims about the parameter store\<close>

lemma count_list_distinct: "distinct xs \<Longrightarrow> count_list xs x = (if x \<in> set xs then 1 else 0)"
  by (induction xs) auto

lemma storeToolInfo_same: "storeToolInfo l p c (toolInfoOf l p c) = l"
  by (simp add: storeToolInfo_def toolInfoOf_def)

lemma swap_last_conv:
  "j < length ns \<Longrightarrow>
   butlast (if j \<noteq> length ns - 1 then ns[j := ns ! (length ns - 1)] else ns)
     = butlast (ns[j := last ns])"
  by (cases ns rule: rev_cases) (auto simp: nth_append list_update_append)

text \<open>
  Claim C5. For a non-zero delegatee and a tool registered under the PKP, any number
  (at least one) of calls of \<open>setToolPolicyParameterForDelegatee\<close> by the owner with
  one parameter name and any values all succeed; afterwards the list returned by
  \<open>getToolPolicyParameterNamesForDelegatee\<close> contains that name exactly once and
  \<open>getToolPolicyParameterForDelegatee\<close> returns the last value written. The name
  list of the triple is duplicate-free before the calls, as it is in every ledger the
  contract can be in (\<open>reachable_namesConsistent\<close>).
\<close>

theorem set_repeated_name_once:
  assumes "msg_sender = pkpOwner (layout w) pkpTokenId"
    and "delegatee \<noteq> 0"
    and "toolIpfsCid \<in> toolCids (pkpStore (layout w) pkpTokenId)"
    and "distinct (policyParameterNames (toolInfoOf (layout w) pkpTokenId toolIpfsCid) delegatee)"
    and "vs \<noteq> []"
  shows "\<exists>w'. setEach msg_sender w pkpTokenId toolIpfsCid delegatee (map (Pair n) vs) = Inr w'
      \<and> (\<exists>ns. getToolPolicyParameterNamesForDelegatee (layout w') pkpTokenId toolIpfsCid delegatee
                 = Inr ns \<and> count_list ns n = 1)
      \<and> getToolPolicyParameterForDelegatee (layout w') pkpTokenId toolIpfsCid delegatee n
          = Inr (last vs)"
proof -
  from setEach_same_name [OF assms(1,2,3,5), of n] obtain w' where w':
    "setEach msg_sender w pkpTokenId toolIpfsCid delegatee (map (Pair n) vs) = Inr w'"
    "toolCids (pkpStore (layout w') pkpTokenId) = toolCids (pkpStore (layout w) pkpTokenId)"
    "policyParameterNames (toolInfoOf (layout w') pkpTokenId toolIpfsCid) delegatee =
       (let ns = policyParameterNames (toolInfoOf (layout w) pkpTokenId toolIpfsCid) delegatee
        in if n \<in> set ns then ns else ns @ [n])"
    "policyParameters (toolInfoOf (layout w') pkpTokenId toolIpfsCid) delegatee n = last vs"
    by blast
  have "count_list (policyParameterNames (toolInfoOf (layout w') pkpTokenId toolIpfsCid) delegatee) n = 1"
    using assms(4) by (simp add: w'(3) Let_def count_list_distinct)
  then show ?thesis
    using w' assms(2,3)
    by (simp add: getToolPolicyParameterNamesForDelegatee_def
        getToolPolicyParameterForDelegatee_def verifyToolRegistered_def)
qed

theorem set_repeated_name_once_witness:
  "\<exists>w'. setEach 7 exampleLedger 1 ''QmTool'' 5 (map (Pair ''b'') [[9], [8]]) = Inr w'
      \<and> (\<exists>ns. getToolPolicyParameterNamesForDelegatee (layout w') 1 ''QmTool'' 5
                 = Inr ns \<and> count_list ns ''b'' = 1)
      \<and> getToolPolicyParameterForDelegatee (layout w') 1 ''QmTool'' 5 ''b'' = Inr [8]"
  using set_repeated_name_once [of 7 exampleLedger 1 5 "''QmTool''" "[[9], [8]]" "''b''"]
  by (simp add: exampleLedger_def toolInfoOf_def)

text \<open>
  Claim C6. In a state that satisfies the invariant of the triple, as every ledger the
  contract can be in does (\<open>reachable_namesConsistent\<close>), a call of
  \<open>removeToolPolicyParameterForDelegatee\<close> that passes the access checks succeeds
  whether or not the name is in the list. With a name that is not in the list the
  whole storage is left as it was (name lists and values alike). With a name in the
  list, the name at its first index \<open>j\<close> is replaced by the last element and the list
  shrinks by one, so the set of names is the old one without that name (the order may
  differ), and the stored value of that name is deleted while every other value stays.
\<close>

theorem remove_absent_noop_present_swap:
  assumes "msg_sender = pkpOwner (layout w) pkpTokenId"
    and "delegatee \<noteq> 0"
    and "toolIpfsCid \<in> toolCids (pkpStore (layout w) pkpTokenId)"
    and "namesConsistent (toolInfoOf (layout w) pkpTokenId toolIpfsCid) delegatee"
  shows "\<exists>w'. removeToolPolicyParameterForDelegatee msg_sender w pkpTokenId toolIpfsCid
                 delegatee parameterName = Inr w'
      \<and> (parameterName \<notin> set (policyParameterNames
            (toolInfoOf (layout w) pkpTokenId toolIpfsCid) delegatee) \<longrightarrow>
           layout w' = layout w)
      \<and> (parameterName \<in> set (policyParameterNames
            (toolInfoOf (layout w) pkpTokenId toolIpfsCid) delegatee) \<longrightarrow>
           (\<exists>j < length (policyParameterNames
                   (toolInfoOf (layout w) pkpTokenId toolIpfsCid) delegatee).
              policyParameterNames (toolInfoOf (layout w) pkpTokenId toolIpfsCid) delegatee ! j
                = parameterName
            \<and> policyParameterNames (toolInfoOf (layout w') pkpTokenId toolIpfsCid) delegatee
                = butlast ((policyParameterNames
                     (toolInfoOf (layout w) pkpTokenId toolIpfsCid) delegatee)
                       [j := last (policyParameterNames
                          (toolInfoOf (layout w) pkpTokenId toolIpfsCid) delegatee)]))
         \<and> set (policyParameterNames (toolInfoOf (layout w') pkpTokenId toolIpfsCid) delegatee)
             = set (policyParameterNames (toolInfoOf (layout w) pkpTokenId toolIpfsCid) delegatee)
                 - {parameterName}
         \<and> policyParameters (toolInfoOf (layout w') pkpTokenId toolIpfsCid) delegatee
             = (policyParameters (toolInfoOf (layout w) pkpTokenId toolIpfsCid) delegatee)
                 (parameterName := []))"
proof -
  let ?ti = "toolInfoOf (layout w) pkpTokenId toolIpfsCid"
  let ?ns = "policyParameterNames ?ti delegatee"
  from remove_ok [OF assms(1,2,3), of parameterName] obtain w' where w':
    "removeToolPolicyParameterForDelegatee msg_sender w pkpTokenId toolIpfsCid
       delegatee parameterName = Inr w'"
    "policyParameterNames (toolInfoOf (layout w') pkpTokenId toolIpfsCid) delegatee =
       removeName ?ns parameterName 0"
    "policyParameters (toolInfoOf (layout w') pkpTokenId toolIpfsCid) delegatee =
       (policyParameters ?ti delegatee)(parameterName := [])"
    by blast
  have d: "distinct ?ns" using assms(4) by (simp add: namesConsistent_def)
  have absent: "layout w' = layout w" if "parameterName \<notin> set ?ns"
  proof -
    have v: "policyParameters ?ti delegatee parameterName = []"
      using assms(4) that by (simp add: namesConsistent_def)
    have "?ti\<lparr>policyParameterNames := (policyParameterNames ?ti)(delegatee :=
               removeName ?ns parameterName 0),
             policyParameters := (policyParameters ?ti)(delegatee :=
               (policyParameters ?ti delegatee)(parameterName := []))\<rparr> = ?ti"
      using that v by (simp add: removeName_absent fun_upd_idem)
    then show ?thesis
      using w'(1) assms(1,2,3)
      by (auto simp: removeToolPolicyParameterForDelegatee_def onlyPKPOwner_def
          verifyToolRegistered_def Let_def storeToolInfo_same)
  qed
  have present: "\<exists>j < length ?ns. ?ns ! j = parameterName
       \<and> policyParameterNames (toolInfoOf (layout w') pkpTokenId toolIpfsCid) delegatee
           = butlast (?ns[j := last ?ns])" if "parameterName \<in> set ?ns"
  proof -
    from removeName_present [of parameterName 0 ?ns] that obtain j where
      "j < length ?ns" "?ns ! j = parameterName"
      "removeName ?ns parameterName 0 =
         butlast (if j \<noteq> length ?ns - 1 then ?ns[j := ?ns ! (length ?ns - 1)] else ?ns)"
      by auto
    then show ?thesis using w'(2) swap_last_conv [of j ?ns] by auto
  qed
  show ?thesis
    using w' absent present removeName_distinct(2) [OF d] by auto
qed

theorem remove_absent_noop_present_swap_witness:
  "(\<exists>w'. removeToolPolicyParameterForDelegatee 7 exampleLedger 1 ''QmTool'' 5 ''zz'' = Inr w'
       \<and> layout w' = layout exampleLedger)
 \<and> (\<exists>w'. removeToolPolicyParameterForDelegatee 7 exampleLedger 1 ''QmTool'' 5 ''a'' = Inr w'
       \<and> set (policyParameterNames (toolInfoOf (layout w') 1 ''QmTool'') 5) = {''b'', ''c''}
       \<and> policyParameters (toolInfoOf (layout w') 1 ''QmTool'') 5 ''a'' = [])"
proof -
  have pre: "7 = pkpOwner (layout exampleLedger) 1" "(5 :: address) \<noteq> 0"
    "''QmTool'' \<in> toolCids (pkpStore (layout exampleLedger) 1)"
    "namesConsistent (toolInfoOf (layout exampleLedger) 1 ''QmTool'') 5"
    by (simp_all add: exampleLedger_def toolInfoOf_def namesConsistent_def)
  have ns: "policyParameterNames (toolInfoOf (layout exampleLedger) 1 ''QmTool'') 5
              = [''a'', ''b'', ''c'']"
    by (simp add: exampleLedger_def toolInfoOf_def)
  have a: "\<exists>w'. removeToolPolicyParameterForDelegatee 7 exampleLedger 1 ''QmTool'' 5 ''zz'' = Inr w'
       \<and> layout w' = layout exampleLedger"
    using remove_absent_noop_present_swap [OF pre, of "''zz''"] unfolding ns by fastforce
  have mem: "''a'' \<in> set (policyParameterNames
      (toolInfoOf (layout exampleLedger) 1 ''QmTool'') 5)"
    by (simp add: ns)
  from remove_absent_noop_present_swap [OF pre, of "''a''"] obtain w' where w':
    "removeToolPolicyParameterForDelegatee 7 exampleLedger 1 ''QmTool'' 5 ''a'' = Inr w'"
    "''a'' \<in> set (policyParameterNames
        (toolInfoOf (layout exampleLedger) 1 ''QmTool'') 5) \<longrightarrow>
     (\<exists>j < length (policyParameterNames
             (toolInfoOf (layout exampleLedger) 1 ''QmTool'') 5).
        policyParameterNames (toolInfoOf (layout exampleLedger) 1 ''QmTool'') 5 ! j = ''a''
      \<and> policyParameterNames (toolInfoOf (layout w') 1 ''QmTool'') 5
          = butlast ((policyParameterNames (toolInfoOf (layout exampleLedger) 1 ''QmTool'') 5)
              [j := last (policyParameterNames
                 (toolInfoOf (layout exampleLedger) 1 ''QmTool'') 5)]))
     \<and> set (policyParameterNames (toolInfoOf (layout w') 1 ''QmTool'') 5)
         = set (policyParameterNames (toolInfoOf (layout exampleLedger) 1 ''QmTool'') 5)
             - {''a''}
     \<and> policyParameters (toolInfoOf (layout w') 1 ''QmTool'') 5
         = (policyParameters (toolInfoOf (layout exampleLedger) 1 ''QmTool'') 5)(''a'' := [])"
    by blast
  from w'(2) mem have
    "set (policyParameterNames (toolInfoOf (layout w') 1 ''QmTool'') 5)
       = set (policyParameterNames (toolInfoOf (layout exampleLedger) 1 ''QmTool'') 5) - {''a''}"
    "policyParameters (toolInfoOf (layout w') 1 ''QmTool'') 5
       = (policyParameters (toolInfoOf (layout exampleLedger) 1 ''QmTool'') 5)(''a'' := [])"
    by blast+
  then have
    "set (policyParameterNames (toolInfoOf (layout w') 1 ''QmTool'') 5) = {''b'', ''c''}"
    "policyParameters (toolInfoOf (layout w') 1 ''QmTool'') 5 ''a'' = []"
    by (auto simp: ns)
  with w'(1) have b:
    "\<exists>w'. removeToolPolicyParameterForDelegatee 7 exampleLedger 1 ''QmTool'' 5 ''a'' = Inr w'
       \<and> set (policyParameterNames (toolInfoOf (layout w') 1 ''QmTool'') 5) = {''b'', ''c''}
       \<and> policyParameters (toolInfoOf (layout w') 1 ''QmTool'') 5 ''a'' = []"
    by blast
  show ?thesis using a b by blast
qed

text \<open>The order after a removal: the last name takes the place of the removed one.\<close>

lemma removeName_order_example:
  "removeName [''a'', ''b'', ''c''] ''a'' 0 = [''c'', ''b'']"
  by code_simp

text \<open>
  Claim C7. \<open>batchSetToolPolicyParametersForDelegatee\<close> with arrays of different
  lengths reverts: for the owner with \<open>ArrayLengthMismatch\<close>, whatever the delegatee
  and the tool are, so before any element is processed; the ledger is unchanged. With
  arrays of one length it is the owner check followed by the single-item set applied
  to each (name, value) pair in order.
\<close>

theorem batchSet_length_check:
  "(length parameterNames \<noteq> length parameterValues \<longrightarrow>
      (\<exists>e. batchSetToolPolicyParametersForDelegatee msg_sender w pkpTokenId toolIpfsCid
             delegatee parameterNames parameterValues = Inl e)
    \<and> (msg_sender = pkpOwner (layout w) pkpTokenId \<longrightarrow>
         batchSetToolPolicyParametersForDelegatee msg_sender w pkpTokenId toolIpfsCid
           delegatee parameterNames parameterValues = Inl ArrayLengthMismatch)
    \<and> ledger_after w (batchSetToolPolicyParametersForDelegatee msg_sender w pkpTokenId
         toolIpfsCid delegatee parameterNames parameterValues) = w)
 \<and> (length parameterNames = length parameterValues \<longrightarrow>
      batchSetToolPolicyParametersForDelegatee msg_sender w pkpTokenId toolIpfsCid
        delegatee parameterNames parameterValues =
      (case onlyPKPOwner msg_sender (layout w) pkpTokenId of
         Inl e \<Rightarrow> Inl e
       | Inr _ \<Rightarrow> setEach msg_sender w pkpTokenId toolIpfsCid delegatee
                   (zip parameterNames parameterValues)))"
  by (auto simp: batchSetToolPolicyParametersForDelegatee_def onlyPKPOwner_def ledger_after_def
      batchSetLoop_setEach split: sum.splits)

theorem batchSet_length_check_witness:
  "batchSetToolPolicyParametersForDelegatee 7 exampleLedger 1 ''QmTool'' 0 [''x'', ''y''] [[1]]
     = Inl ArrayLengthMismatch
 \<and> ledger_after exampleLedger (batchSetToolPolicyParametersForDelegatee 7 exampleLedger 1
       ''QmTool'' 0 [''x'', ''y''] [[1]]) = exampleLedger
 \<and> batchSetToolPolicyParametersForDelegatee 7 exampleLedger 1 ''QmTool'' 5 [''x'', ''y'']
       [[1], [2]]
     = setEach 7 exampleLedger 1 ''QmTool'' 5 [(''x'', [1]), (''y'', [2])]"
proof -
  have owner: "pkpOwner (layout exampleLedger) 1 = 7"
    by (simp add: exampleLedger_def)
  show ?thesis
    using batchSet_length_check [of "[''x'', ''y'']" "[[1]]" 7 exampleLedger 1 "''QmTool''" 0]
      batchSet_length_check [of "[''x'', ''y'']" "[[1], [2]]" 7 exampleLedger 1 "''QmTool''" 5]
    by (simp add: owner onlyPKPOwner_def ledger_after_def)
qed

text \<open>
  Claim C10. The two reads revert with \<open>InvalidDelegatee\<close> for the zero delegatee and
  with \<open>ToolNotFound\<close> for a tool that is not registered under the PKP; otherwise they
  return the stored list and value. They take no caller: no ownership is checked.
\<close>

theorem reads_check_delegatee_and_tool:
  "(delegatee = 0 \<longrightarrow>
      getToolPolicyParameterNamesForDelegatee l pkpTokenId toolIpfsCid delegatee
        = Inl InvalidDelegatee
    \<and> getToolPolicyParameterForDelegatee l pkpTokenId toolIpfsCid delegatee parameterName
        = Inl InvalidDelegatee)
 \<and> (delegatee \<noteq> 0 \<and> toolIpfsCid \<notin> toolCids (pkpStore l pkpTokenId) \<longrightarrow>
      getToolPolicyParameterNamesForDelegatee l pkpTokenId toolIpfsCid delegatee
        = Inl (ToolNotFound toolIpfsCid)
    \<and> getToolPolicyParameterForDelegatee l pkpTokenId toolIpfsCid delegatee parameterName
        = Inl (ToolNotFound toolIpfsCid))
 \<and> (delegatee \<noteq> 0 \<and> toolIpfsCid \<in> toolCids (pkpStore l pkpTokenId) \<longrightarrow>
      getToolPolicyParameterNamesForDelegatee l pkpTokenId toolIpfsCid delegatee
        = Inr (policyParameterNames (toolInfoOf l pkpTokenId toolIpfsCid) delegatee)
    \<and> getToolPolicyParameterForDelegatee l pkpTokenId toolIpfsCid delegatee parameterName
        = Inr (policyParameters (toolInfoOf l pkpTokenId toolIpfsCid) delegatee parameterName))"
  by (simp add: getToolPolicyParameterNamesForDelegatee_def
      getToolPolicyParameterForDelegatee_def verifyToolRegistered_def)

theorem reads_check_delegatee_and_tool_witness:
  "getToolPolicyParameterNamesForDelegatee (layout exampleLedger) 1 ''QmTool'' 0
     = Inl InvalidDelegatee
 \<and> getToolPolicyParameterForDelegatee (layout exampleLedger) 1 ''QmTool'' 0 ''a''
     = Inl InvalidDelegatee
 \<and> getToolPolicyParameterNamesForDelegatee (layout exampleLedger) 1 ''QmOther'' 5
     = Inl (ToolNotFound ''QmOther'')
 \<and> getToolPolicyParameterForDelegatee (layout exampleLedger) 1 ''QmOther'' 5 ''a''
     = Inl (ToolNotFound ''QmOther'')
 \<and> getToolPolicyParameterNamesForDelegatee (layout exampleLedger) 1 ''QmTool'' 5
     = Inr [''a'', ''b'', ''c'']
 \<and> getToolPolicyParameterForDelegatee (layout exampleLedger) 1 ''QmTool'' 5 ''a'' = Inr [1]"
  using reads_check_delegatee_and_tool [of 0 "layout exampleLedger" 1 "''QmTool''" "''a''"]
    reads_check_delegatee_and_tool [of 5 "layout exampleLedger" 1 "''QmOther''" "''a''"]
    reads_check_delegatee_and_tool [of 5 "layout exampleLedger" 1 "''QmTool''" "''a''"]
  by (simp add: exampleLedger_def toolInfoOf_def)

section \<open>Properties of the registry client\<close>

lemma gasLimitOf_nonneg:
  "0 \<le> g \<Longrightarrow> gasLimitOf g = Inr (g * 120 div 100)"
  by (cases "g = 0") (simp_all add: gasLimitOf_def BigNumber_div_def BigNumber_mul_def)

text \<open>
  Claim C8. For every gas estimate \<open>g\<close> the gas limit of the final transaction is
  \<open>g * 120\<close> divided by \<open>100\<close>, the product first and the quotient truncated towards
  zero. For an estimate that is not negative, as a provider's is, it is the integer
  quotient \<open>g * 120 div 100\<close>, the one integer \<open>L\<close> with
  \<open>100 * L \<le> 120 * g < 100 * (L + 1)\<close>. The estimate 1000 gives 1200 and the estimate
  1001 gives 1201. When every call of \<open>setToolPolicy\<close> before the signature succeeds
  with the estimate \<open>g\<close>, the transaction that is signed carries this limit.
\<close>

theorem gas_limit_rule:
  "gasLimitOf g = Inr (sgn g * (\<bar>g\<bar> * 120 div 100))
 \<and> (0 \<le> g \<longrightarrow>
      gasLimitOf g = Inr (g * 120 div 100)
    \<and> 100 * (g * 120 div 100) \<le> 120 * g
    \<and> 120 * g < 100 * (g * 120 div 100 + 1))
 \<and> gasLimitOf 1000 = Inr 1200
 \<and> gasLimitOf 1001 = Inr 1201
 \<and> (0 \<le> g \<and> abiEncode env (opt_policy options) = Inr p
      \<and> encodeFunctionData env (opt_ipfsCid options) p (opt_version options) = Inr d
      \<and> estimateGas env \<lparr>tx_to = contractAddress env, tx_data = d, gasLimit = None\<rparr> pkpAddress
          = Inr g \<longrightarrow>
      buildFinalTx env pkpAddress options
        = Inr \<lparr>tx_to = contractAddress env, tx_data = d, gasLimit = Some (g * 120 div 100)\<rparr>)"
proof -
  have a: "gasLimitOf g = Inr (g * 120 div 100)" if "0 \<le> g"
    using that by (rule gasLimitOf_nonneg)
  have b: "100 * (g * 120 div 100) \<le> 120 * g" "120 * g < 100 * (g * 120 div 100 + 1)"
    by presburger+
  have c: "gasLimitOf 1000 = Inr 1200" "gasLimitOf 1001 = Inr 1201"
    by (simp_all add: gasLimitOf_def BigNumber_div_def BigNumber_mul_def)
  have t: "gasLimitOf g = Inr (sgn g * (\<bar>g\<bar> * 120 div 100))"
    by (simp add: gasLimitOf_def BigNumber_div_def BigNumber_mul_def abs_mult sgn_mult)
  show ?thesis
    using a b c t by (auto simp: buildFinalTx_def Let_def)
qed

theorem gas_limit_rule_witness:
  "gasLimitOf 1001 = Inr 1201
 \<and> buildFinalTx (exampleRegistryEnv 1001) ''0xpkp''
      \<lparr>opt_ipfsCid = ''QmTool'', opt_policy = JNum 5, opt_version = ''1.0.0''\<rparr>
     = Inr \<lparr>tx_to = ''0xD78e'', tx_data = ''0xdata'', gasLimit = Some 1201\<rparr>"
  using gas_limit_rule [of 1001 "exampleRegistryEnv 1001"
      "\<lparr>opt_ipfsCid = ''QmTool'', opt_policy = JNum 5, opt_version = ''1.0.0''\<rparr>"
      "''0xabcd''" "''0xdata''" "''0xpkp''"]
  by (simp add: exampleRegistryEnv_def)

section \<open>Properties of the admin handler\<close>

text \<open>
  Both checks of the handler test the three objects for keys; in the spec's words the
  second one is the intersection of the registered CIDs with the permitted CIDs.
\<close>

lemma noRegisteredTools_iff: "noRegisteredTools r \<longleftrightarrow> registeredCids r = {}"
  by (auto simp: noRegisteredTools_def registeredCids_def)

lemma filter_keys_empty:
  "filter (\<lambda>(c, t). c \<in> S) xs = [] \<longleftrightarrow> set (map fst xs) \<inter> S = {}"
  by (induction xs) auto

lemma noRegisteredTools_filterPermitted:
  "noRegisteredTools (filterPermitted cs r) \<longleftrightarrow> registeredCids r \<inter> set cs = {}"
  by (auto simp: noRegisteredTools_def filterPermitted_def registeredCids_def filter_keys_empty)

text \<open>
  Claim C9, as the code has it. When nothing is registered under the PKP, the \<open>try\<close>
  block fails with the "no permitted tools" error right after the registry read, before
  any prompt; the handler logs it and returns. When tools are registered, the delegatee
  is selected at a prompt first, because the permitted tools are asked for that
  delegatee; if then the intersection of the registered tools with the delegatee's
  permitted tools is empty, the \<open>try\<close> block fails with the "no permitted tools" error
  after the delegatee prompt and before the tool prompt and any unpermit call.
\<close>

theorem unpermit_no_permitted_tools:
  "((getRegisteredToolsAndDelegateesForPkp env tokenId = Inr None
      \<or> (\<exists>r. getRegisteredToolsAndDelegateesForPkp env tokenId = Inr (Some r)
              \<and> registeredCids r = {})) \<longrightarrow>
      handleUnpermit_try env tokenId =
        ([CallGetRegisteredTools tokenId],
         Inl (AwCliError ADMIN_UNPERMIT_TOOL_FOR_DELEGATEE_NO_PERMITTED_TOOLS
                ''No permitted tools found.''))
    \<and> handleUnpermitToolForDelegatee env tokenId =
        ([CallGetRegisteredTools tokenId, LoggerError ''No permitted tools found.''], Inr ()))
 \<and> (getRegisteredToolsAndDelegateesForPkp env tokenId = Inr (Some r)
      \<and> registeredCids r \<noteq> {}
      \<and> getDelegatees env tokenId = Inr ds
      \<and> selectDelegatee env ds = Some dg \<and> dg \<noteq> []
      \<and> getPermittedToolsForDelegatee env tokenId dg = Inr pts
      \<and> registeredCids r \<inter> set (map pt_toolIpfsCid pts) = {} \<longrightarrow>
      handleUnpermit_try env tokenId =
        ([CallGetRegisteredTools tokenId, CallGetDelegatees tokenId, PromptSelectDelegatee ds,
          CallGetPermittedTools tokenId dg],
         Inl (AwCliError ADMIN_UNPERMIT_TOOL_FOR_DELEGATEE_NO_PERMITTED_TOOLS
                ''No permitted tools found for this delegatee.''))
    \<and> handleUnpermitToolForDelegatee env tokenId =
        ([CallGetRegisteredTools tokenId, CallGetDelegatees tokenId, PromptSelectDelegatee ds,
          CallGetPermittedTools tokenId dg, LoggerError ''No permitted tools found.''], Inr ()))"
proof -
  have pkp: "handleUnpermit_try env tokenId =
        ([CallGetRegisteredTools tokenId],
         Inl (AwCliError ADMIN_UNPERMIT_TOOL_FOR_DELEGATEE_NO_PERMITTED_TOOLS
                ''No permitted tools found.''))"
    if "getRegisteredToolsAndDelegateesForPkp env tokenId = Inr None
      \<or> (\<exists>r. getRegisteredToolsAndDelegateesForPkp env tokenId = Inr (Some r)
              \<and> registeredCids r = {})"
    using that by (auto simp: handleUnpermit_try_def noRegisteredTools_iff)
  have dlg: "handleUnpermit_try env tokenId =
        ([CallGetRegisteredTools tokenId, CallGetDelegatees tokenId, PromptSelectDelegatee ds,
          CallGetPermittedTools tokenId dg],
         Inl (AwCliError ADMIN_UNPERMIT_TOOL_FOR_DELEGATEE_NO_PERMITTED_TOOLS
                ''No permitted tools found for this delegatee.''))"
    if "getRegisteredToolsAndDelegateesForPkp env tokenId = Inr (Some r)"
      "registeredCids r \<noteq> {}" "getDelegatees env tokenId = Inr ds"
      "selectDelegatee env ds = Some dg" "dg \<noteq> []"
      "getPermittedToolsForDelegatee env tokenId dg = Inr pts"
      "registeredCids r \<inter> set (map pt_toolIpfsCid pts) = {}"
  proof -
    have n1: "\<not> noRegisteredTools r"
      using that(2) by (simp add: noRegisteredTools_iff)
    have n2: "noRegisteredTools (filterPermitted (map pt_toolIpfsCid pts) r)"
      using that(7) by (simp only: noRegisteredTools_filterPermitted)
    show ?thesis
      using that(1,3,4,5,6) n1 n2
      by (simp add: handleUnpermit_try_def promptSelectDelegateeToUnpermitToolFor_def
          unpermitForSelectedDelegatee_def Let_def)
  qed
  show ?thesis
    using pkp dlg by (simp add: handleUnpermitToolForDelegatee_def)
qed

theorem unpermit_no_permitted_tools_witness:
  "handleUnpermitToolForDelegatee emptyAdminEnv ''1'' =
     ([CallGetRegisteredTools ''1'', LoggerError ''No permitted tools found.''], Inr ())
 \<and> handleUnpermit_try exampleAdminEnv ''1'' =
     ([CallGetRegisteredTools ''1'', CallGetDelegatees ''1'', PromptSelectDelegatee [''0xD1''],
       CallGetPermittedTools ''1'' ''0xD1''],
      Inl (AwCliError ADMIN_UNPERMIT_TOOL_FOR_DELEGATEE_NO_PERMITTED_TOOLS
             ''No permitted tools found for this delegatee.''))"
  using unpermit_no_permitted_tools [of emptyAdminEnv "''1''"]
    unpermit_no_permitted_tools [of exampleAdminEnv "''1''"
      "\<lparr>toolsWithPolicies = [(''QmA'', \<lparr>rt_name = ''Swap'', rt_ipfsCid = ''QmA''\<rparr>)],
        toolsWithoutPolicies = [], toolsUnknownWithPolicies = []\<rparr>" "[''0xD1'']" "''0xD1''" "[]"]
  by (simp add: emptyAdminEnv_def exampleAdminEnv_def registeredCids_def)

text \<open>
  The claim as it is written asks for the failure "before any prompt" at the delegatee
  level as well. With one registered tool and a delegatee who is permitted none, the
  intersection is empty and the delegatee prompt is among the effects of the handler.
\<close>

theorem unpermit_prompt_first_counterexample:
  "getRegisteredToolsAndDelegateesForPkp exampleAdminEnv ''1'' = Inr (Some
       \<lparr>toolsWithPolicies = [(''QmA'', \<lparr>rt_name = ''Swap'', rt_ipfsCid = ''QmA''\<rparr>)],
        toolsWithoutPolicies = [], toolsUnknownWithPolicies = []\<rparr>)
 \<and> getPermittedToolsForDelegatee exampleAdminEnv ''1'' ''0xD1'' = Inr []
 \<and> registeredCids
       \<lparr>toolsWithPolicies = [(''QmA'', \<lparr>rt_name = ''Swap'', rt_ipfsCid = ''QmA''\<rparr>)],
        toolsWithoutPolicies = [], toolsUnknownWithPolicies = []\<rparr>
     \<inter> set (map pt_toolIpfsCid []) = {}
 \<and> handleUnpermitToolForDelegatee exampleAdminEnv ''1'' =
     ([CallGetRegisteredTools ''1'', CallGetDelegatees ''1'', PromptSelectDelegatee [''0xD1''],
       CallGetPermittedTools ''1'' ''0xD1'', LoggerError ''No permitted tools found.''], Inr ())
 \<and> filter isPrompt (fst (handleUnpermitToolForDelegatee exampleAdminEnv ''1''))
     = [PromptSelectDelegatee [''0xD1'']]"
  by (simp add: exampleAdminEnv_def handleUnpermitToolForDelegatee_def handleUnpermit_try_def
      noRegisteredTools_def promptSelectDelegateeToUnpermitToolFor_def
      unpermitForSelectedDelegatee_def filterPermitted_def Let_def)

section \<open>Properties of the execution pipeline\<close>

subsection \<open>Failures and the outer catch\<close>

text \<open>
  A failure of a collaborator that no stage handles reaches the outer \<open>catch\<close> as it is
  thrown. The permission stage has a \<open>catch\<close> of its own, which returns a failure value
  for two kinds of \<open>LitAgentError\<close> and throws everything else on; either way the call
  ends as the outer \<open>catch\<close> would end it.
\<close>

lemma findTool_failure_reaches_boundary:
  "findTool deps c = Inl e \<Longrightarrow> executeTool_try deps options c ps = ([CallFindTool c], Inl e)"
  by (simp add: executeTool_try_def)

lemma permission_failure_executeTool:
  assumes "findTool deps c = Inr t" "permissionAttempt deps options t = (tr0, Inl e)"
  shows "snd (executeTool deps options c ps) = outerCatch c ps e"
  using assms
  by (auto simp: executeTool_def executeTool_try_def permissionStage_def outerCatch_def
      split: thrown.splits)

lemma permission_passed:
  "permissionAttempt deps options t = (tr0, Inr ()) \<Longrightarrow>
   permissionStage deps options t = (tr0, Inr None)"
  by (simp add: permissionStage_def)

lemma collect_failure_reaches_boundary:
  "validateAndCollectParameters deps t ps = Inl e \<Longrightarrow>
   afterPermission deps options c ps t = ([CallValidateAndCollectParameters t ps], Inl e)"
  by (simp add: afterPermission_def)

lemma executeAction_failure_reaches_boundary:
  assumes "validateAndCollectParameters deps t ps = Inr fp"
    and "policyFetchStage deps c t = (tr1, Inr pol)"
    and "validationStage deps options t fp pol = (tr2, Inr vp)"
    and "executeAction deps c vp = Inl e"
  shows "afterPermission deps options c ps t =
     (CallValidateAndCollectParameters t ps # tr1 @ tr2 @ [CallExecuteAction c vp], Inl e)"
  using assms by (simp add: afterPermission_def)

lemma example_stages:
  "findTool exampleDeps ''QmTool'' = Inr exampleTool"
  "permissionAttempt exampleDeps noCallbacks exampleTool
     = ([CallHandleToolPermission exampleTool], Inr ())"
  "validateAndCollectParameters exampleDeps exampleTool ps = Inr ps"
  "policyFetchStage exampleDeps ''QmTool'' exampleTool
     = ([CallGetToolPolicy ''QmTool'', CallDecodePolicy ''SendERC20'' ''0x01''],
        Inr (JObj [(''maxAmount'', JNum 10)]))"
  by (simp_all add: exampleDeps_def permissionAttempt_def policyFetchStage_def
      policyFetchAttempt_def exampleTool_def noCallbacks_def)

text \<open>
  Claim C1, as the code has it. The outer \<open>catch\<close> returns \<open>{success: false, reason}\<close>
  with the message of a \<open>LitAgentError\<close> and does not throw; anything else it wraps (as
  \<open>originalError\<close>, beside the CID and the initial parameters) into a new
  \<open>TOOL_EXECUTION_FAILED\<close> error, which it throws, returning no value. This is how the
  call ends for a failure of \<open>findTool\<close>, of \<open>handleToolPermission\<close>, of the
  \<open>onPolicyRegistered\<close> notification, of \<open>validateAndCollectParameters\<close>, of the policy
  read and decoding (other than an \<open>Error\<close> with the message
  "Tool policy manager not initialized") and of \<open>executeAction\<close>. A failure that a stage
  handles does not end the call this way: a first validation that fails with no
  callback supplied ends it with a returned failure value whatever was thrown, a
  \<open>LitAgentError\<close> or not. Whatever \<open>executeTool\<close> throws is a \<open>TOOL_EXECUTION_FAILED\<close>
  error around a failure that is not a \<open>LitAgentError\<close>.
\<close>

theorem executeTool_failure_outcomes:
  "(isLitAgentError e \<longrightarrow>
      outerCatch c ps e =
        Inr \<lparr>success = False, reason = Some (JStr (messageOf e)), result = None\<rparr>)
 \<and> (\<not> isLitAgentError e \<longrightarrow>
      outerCatch c ps e =
        Inl (LitAgentError TOOL_EXECUTION_FAILED
               (if isError e then messageOf e else ''Failed to execute tool'')
               (Details None None (Some c) (Some ps) (Some e))))
 \<and> (findTool deps c = Inl e \<longrightarrow>
      executeTool deps options c ps = ([CallFindTool c], outerCatch c ps e))
 \<and> (findTool deps c = Inr t \<and> handleToolPermission deps t = Inl e \<longrightarrow>
      snd (executeTool deps options c ps) = outerCatch c ps e)
 \<and> (findTool deps c = Inr t \<and> handleToolPermission deps t = Inr (Some h) \<and> h \<noteq> []
      \<and> onPolicyRegistered options = Some notify \<and> notify h = Some e \<longrightarrow>
      snd (executeTool deps options c ps) = outerCatch c ps e)
 \<and> (findTool deps c = Inr t \<and> permissionAttempt deps options t = (tr0, Inr ())
      \<and> validateAndCollectParameters deps t ps = Inl e \<longrightarrow>
      executeTool deps options c ps =
        (CallFindTool c # tr0 @ [CallValidateAndCollectParameters t ps], outerCatch c ps e))
 \<and> (findTool deps c = Inr t \<and> permissionAttempt deps options t = (tr0, Inr ())
      \<and> validateAndCollectParameters deps t ps = Inr fp
      \<and> getToolPolicy deps c = Inl e
      \<and> \<not> (isError e \<and> messageOf e = ''Tool policy manager not initialized'') \<longrightarrow>
      executeTool deps options c ps =
        (CallFindTool c # tr0 @ [CallValidateAndCollectParameters t ps, CallGetToolPolicy c],
         outerCatch c ps e))
 \<and> (findTool deps c = Inr t \<and> permissionAttempt deps options t = (tr0, Inr ())
      \<and> validateAndCollectParameters deps t ps = Inr fp
      \<and> getToolPolicy deps c = Inr currentPolicy \<and> currentPolicy \<noteq> []
      \<and> decodePolicy deps (name t) currentPolicy = Inl e
      \<and> \<not> (isError e \<and> messageOf e = ''Tool policy manager not initialized'') \<longrightarrow>
      executeTool deps options c ps =
        (CallFindTool c # tr0 @ [CallValidateAndCollectParameters t ps, CallGetToolPolicy c,
           CallDecodePolicy (name t) currentPolicy],
         outerCatch c ps e))
 \<and> (findTool deps c = Inr t \<and> permissionAttempt deps options t = (tr0, Inr ())
      \<and> validateAndCollectParameters deps t ps = Inr fp
      \<and> policyFetchStage deps c t = (tr1, Inr pol)
      \<and> validationStage deps options t fp pol = (tr2, Inr vp)
      \<and> executeAction deps c vp = Inl e \<longrightarrow>
      executeTool deps options c ps =
        (CallFindTool c # tr0 @ CallValidateAndCollectParameters t ps # tr1 @ tr2
           @ [CallExecuteAction c vp],
         outerCatch c ps e))
 \<and> (findTool deps c = Inr t \<and> permissionAttempt deps options t = (tr0, Inr ())
      \<and> validateAndCollectParameters deps t ps = Inr fp
      \<and> policyFetchStage deps c t = (tr1, Inr pol) \<and> truthy pol
      \<and> validateParamsAgainstPolicy deps t fp pol = Some e
      \<and> failedPolicyCallback options = None \<longrightarrow>
      executeTool deps options c ps =
        (CallFindTool c # tr0 @ CallValidateAndCollectParameters t ps # tr1
           @ [CallValidateParamsAgainstPolicy t fp pol],
         Inr \<lparr>success = False,
              reason = Some (JStr (if isError e then messageOf e
                                   else ''Parameters do not meet policy requirements'')),
              result = None\<rparr>))
 \<and> (executeTool deps options c ps = (tr, Inl x) \<longrightarrow>
      (\<exists>msg e'. x = LitAgentError TOOL_EXECUTION_FAILED msg
                      (Details None None (Some c) (Some ps) (Some e'))
         \<and> \<not> isLitAgentError e'))
 \<and> (handleToolPermission deps t = Inr None \<longrightarrow>
      permissionAttempt deps options t = ([CallHandleToolPermission t], Inr ()))
 \<and> (isLitAgentError e \<longleftrightarrow> (\<exists>ty msg ctx. e = LitAgentError ty msg ctx))
 \<and> (isError e \<longleftrightarrow> (\<forall>v. e \<noteq> NonError v))
 \<and> messageOf (LitAgentError ty0 msg0 ctx0) = msg0
 \<and> messageOf (JsError msg0) = msg0"
proof -
  have oc: "(isLitAgentError e \<longrightarrow>
      outerCatch c ps e =
        Inr \<lparr>success = False, reason = Some (JStr (messageOf e)), result = None\<rparr>)
    \<and> (\<not> isLitAgentError e \<longrightarrow>
      outerCatch c ps e =
        Inl (LitAgentError TOOL_EXECUTION_FAILED
               (if isError e then messageOf e else ''Failed to execute tool'')
               (Details None None (Some c) (Some ps) (Some e))))"
    by (simp add: outerCatch_def failureResult_def)
  have ft: "executeTool deps options c ps = ([CallFindTool c], outerCatch c ps e)"
    if "findTool deps c = Inl e"
    using findTool_failure_reaches_boundary [OF that] by (simp add: executeTool_def)
  have hp: "snd (executeTool deps options c ps) = outerCatch c ps e"
    if "findTool deps c = Inr t" "handleToolPermission deps t = Inl e"
  proof -
    have "permissionAttempt deps options t = ([CallHandleToolPermission t], Inl e)"
      using that(2) by (simp add: permissionAttempt_def)
    then show ?thesis using that(1) by (rule permission_failure_executeTool [rotated])
  qed
  have nt: "snd (executeTool deps options c ps) = outerCatch c ps e"
    if "findTool deps c = Inr t" "handleToolPermission deps t = Inr (Some h)" "h \<noteq> []"
      "onPolicyRegistered options = Some notify" "notify h = Some e"
  proof -
    have "permissionAttempt deps options t =
        ([CallHandleToolPermission t, CallOnPolicyRegistered h], Inl e)"
      using that(2-5) by (simp add: permissionAttempt_def)
    then show ?thesis using that(1) by (rule permission_failure_executeTool [rotated])
  qed
  have vc: "executeTool deps options c ps =
        (CallFindTool c # tr0 @ [CallValidateAndCollectParameters t ps], outerCatch c ps e)"
    if "findTool deps c = Inr t" "permissionAttempt deps options t = (tr0, Inr ())"
      "validateAndCollectParameters deps t ps = Inl e"
    using that permission_passed [OF that(2)] collect_failure_reaches_boundary [OF that(3)]
    by (simp add: executeTool_def executeTool_try_def)
  have pf: "executeTool deps options c ps =
        (CallFindTool c # tr0 @ CallValidateAndCollectParameters t ps # tr1,
         outerCatch c ps e)"
    if "findTool deps c = Inr t" "permissionAttempt deps options t = (tr0, Inr ())"
      "validateAndCollectParameters deps t ps = Inr fp"
      "policyFetchAttempt deps c t = (tr1, Inl e)"
      "\<not> (isError e \<and> messageOf e = ''Tool policy manager not initialized'')" for tr1
  proof -
    have "policyFetchStage deps c t = (tr1, Inl e)"
      using that(4,5) by (simp add: policyFetchStage_def)
    then show ?thesis
      using that(1,3) permission_passed [OF that(2)]
      by (simp add: executeTool_def executeTool_try_def afterPermission_def)
  qed
  have pr: "executeTool deps options c ps =
        (CallFindTool c # tr0 @ [CallValidateAndCollectParameters t ps, CallGetToolPolicy c],
         outerCatch c ps e)"
    if "findTool deps c = Inr t" "permissionAttempt deps options t = (tr0, Inr ())"
      "validateAndCollectParameters deps t ps = Inr fp"
      "getToolPolicy deps c = Inl e"
      "\<not> (isError e \<and> messageOf e = ''Tool policy manager not initialized'')"
  proof -
    have "policyFetchAttempt deps c t = ([CallGetToolPolicy c], Inl e)"
      using that(4) by (simp add: policyFetchAttempt_def)
    from pf [OF that(1,2,3) this that(5)] show ?thesis by simp
  qed
  have pd: "executeTool deps options c ps =
        (CallFindTool c # tr0 @ [CallValidateAndCollectParameters t ps, CallGetToolPolicy c,
           CallDecodePolicy (name t) currentPolicy],
         outerCatch c ps e)"
    if "findTool deps c = Inr t" "permissionAttempt deps options t = (tr0, Inr ())"
      "validateAndCollectParameters deps t ps = Inr fp"
      "getToolPolicy deps c = Inr currentPolicy" "currentPolicy \<noteq> []"
      "decodePolicy deps (name t) currentPolicy = Inl e"
      "\<not> (isError e \<and> messageOf e = ''Tool policy manager not initialized'')"
  proof -
    have "policyFetchAttempt deps c t =
        ([CallGetToolPolicy c, CallDecodePolicy (name t) currentPolicy], Inl e)"
      using that(4,5,6) by (simp add: policyFetchAttempt_def)
    from pf [OF that(1,2,3) this that(7)] show ?thesis by simp
  qed
  have ea: "executeTool deps options c ps =
        (CallFindTool c # tr0 @ CallValidateAndCollectParameters t ps # tr1 @ tr2
           @ [CallExecuteAction c vp],
         outerCatch c ps e)"
    if "findTool deps c = Inr t" "permissionAttempt deps options t = (tr0, Inr ())"
      "validateAndCollectParameters deps t ps = Inr fp"
      "policyFetchStage deps c t = (tr1, Inr pol)"
      "validationStage deps options t fp pol = (tr2, Inr vp)"
      "executeAction deps c vp = Inl e"
    using that(1) permission_passed [OF that(2)]
      executeAction_failure_reaches_boundary [OF that(3,4,5,6)]
    by (simp add: executeTool_def executeTool_try_def)
  have fv: "executeTool deps options c ps =
        (CallFindTool c # tr0 @ CallValidateAndCollectParameters t ps # tr1
           @ [CallValidateParamsAgainstPolicy t fp pol],
         Inr \<lparr>success = False,
              reason = Some (JStr (if isError e then messageOf e
                                   else ''Parameters do not meet policy requirements'')),
              result = None\<rparr>)"
    if "findTool deps c = Inr t" "permissionAttempt deps options t = (tr0, Inr ())"
      "validateAndCollectParameters deps t ps = Inr fp"
      "policyFetchStage deps c t = (tr1, Inr pol)" "truthy pol"
      "validateParamsAgainstPolicy deps t fp pol = Some e"
      "failedPolicyCallback options = None"
  proof -
    have "validationStage deps options t fp pol =
        ([CallValidateParamsAgainstPolicy t fp pol],
         Inl (LitAgentError TOOL_VALIDATION_FAILED
                (if isError e then messageOf e
                 else ''Parameters do not meet policy requirements'')
                (Details (Some t) (Some pol) None None (Some e))))"
      using that(5,6,7) by (simp add: validationStage_def validationFailed_def)
    then show ?thesis
      using that(1,3,4) permission_passed [OF that(2)]
      by (simp add: executeTool_def executeTool_try_def afterPermission_def outerCatch_def
          failureResult_def)
  qed
  have th: "\<exists>msg e'. x = LitAgentError TOOL_EXECUTION_FAILED msg
                      (Details None None (Some c) (Some ps) (Some e'))
         \<and> \<not> isLitAgentError e'"
    if "executeTool deps options c ps = (tr, Inl x)"
    using that
    by (auto simp: executeTool_def outerCatch_def split: prod.splits sum.splits if_splits)
  have pa: "permissionAttempt deps options t = ([CallHandleToolPermission t], Inr ())"
    if "handleToolPermission deps t = Inr None"
    using that by (simp add: permissionAttempt_def)
  have k1: "isLitAgentError e \<longleftrightarrow> (\<exists>ty msg ctx. e = LitAgentError ty msg ctx)"
    by (cases e) simp_all
  have k2: "isError e \<longleftrightarrow> (\<forall>v. e \<noteq> NonError v)"
    by (cases e) simp_all
  have k3: "messageOf (LitAgentError ty0 msg0 ctx0) = msg0" "messageOf (JsError msg0) = msg0"
    by simp_all
  have part1: "(isLitAgentError e \<longrightarrow>
      outerCatch c ps e =
        Inr \<lparr>success = False, reason = Some (JStr (messageOf e)), result = None\<rparr>)
    \<and> (\<not> isLitAgentError e \<longrightarrow>
      outerCatch c ps e =
        Inl (LitAgentError TOOL_EXECUTION_FAILED
               (if isError e then messageOf e else ''Failed to execute tool'')
               (Details None None (Some c) (Some ps) (Some e))))
    \<and> (findTool deps c = Inl e \<longrightarrow>
      executeTool deps options c ps = ([CallFindTool c], outerCatch c ps e))
    \<and> (findTool deps c = Inr t \<and> handleToolPermission deps t = Inl e \<longrightarrow>
      snd (executeTool deps options c ps) = outerCatch c ps e)
    \<and> (findTool deps c = Inr t \<and> handleToolPermission deps t = Inr (Some h) \<and> h \<noteq> []
      \<and> onPolicyRegistered options = Some notify \<and> notify h = Some e \<longrightarrow>
      snd (executeTool deps options c ps) = outerCatch c ps e)"
    using oc ft hp nt by blast
  show ?thesis
    using part1 vc pr pd ea fv th pa k1 k2 k3 by blast
qed

theorem executeTool_failure_outcomes_witness:
  "executeTool exampleDeps noCallbacks ''QmNone'' []
     = ([CallFindTool ''QmNone''],
        Inl (LitAgentError TOOL_EXECUTION_FAILED ''Tool not found''
               (Details None None (Some ''QmNone'') (Some []) (Some (JsError ''Tool not found'')))))
 \<and> snd (executeTool
       (exampleDeps\<lparr>handleToolPermission := (\<lambda>t. Inl (LitAgentError TOOL_PERMISSION_FAILED
          ''Permission denied by user'' (Details None None None None None)))\<rparr>)
       noCallbacks ''QmTool'' [])
     = Inr \<lparr>success = False, reason = Some (JStr ''Permission denied by user''), result = None\<rparr>
 \<and> snd (executeTool
       (exampleDeps\<lparr>handleToolPermission := (\<lambda>t. Inl (NonError (JStr ''rpc down'')))\<rparr>)
       noCallbacks ''QmTool'' [])
     = Inl (LitAgentError TOOL_EXECUTION_FAILED ''Failed to execute tool''
              (Details None None (Some ''QmTool'') (Some []) (Some (NonError (JStr ''rpc down'')))))
 \<and> snd (executeTool
       (exampleDeps\<lparr>validateAndCollectParameters := (\<lambda>t ps. Inl (LitAgentError
          (OtherErrorType ''PARAMS'') ''Parameter input cancelled''
          (Details None None None None None)))\<rparr>)
       noCallbacks ''QmTool'' [])
     = Inr \<lparr>success = False, reason = Some (JStr ''Parameter input cancelled''), result = None\<rparr>
 \<and> snd (executeTool exampleDeps noCallbacks ''QmTool'' [(''amount'', ''100'')])
     = Inr \<lparr>success = False, reason = Some (JStr ''amount exceeds limit''), result = None\<rparr>"
proof -
  let ?denied = "LitAgentError TOOL_PERMISSION_FAILED ''Permission denied by user''
      (Details None None None None None)"
  let ?d1 = "exampleDeps\<lparr>handleToolPermission := (\<lambda>t. Inl ?denied)\<rparr>"
  let ?d2 = "exampleDeps\<lparr>handleToolPermission := (\<lambda>t. Inl (NonError (JStr ''rpc down'')))\<rparr>"
  let ?cancel = "LitAgentError (OtherErrorType ''PARAMS'') ''Parameter input cancelled''
      (Details None None None None None)"
  let ?d3 = "exampleDeps\<lparr>validateAndCollectParameters := (\<lambda>t ps. Inl ?cancel)\<rparr>"
  have f: "findTool exampleDeps ''QmNone'' = Inl (JsError ''Tool not found'')"
    "findTool ?d1 ''QmTool'' = Inr exampleTool" "findTool ?d2 ''QmTool'' = Inr exampleTool"
    "findTool ?d3 ''QmTool'' = Inr exampleTool"
    by (simp_all add: exampleDeps_def)
  have p3: "permissionAttempt ?d3 noCallbacks exampleTool
      = ([CallHandleToolPermission exampleTool], Inr ())"
    by (simp add: permissionAttempt_def exampleDeps_def)
  have v: "validateParamsAgainstPolicy exampleDeps exampleTool [(''amount'', ''100'')]
      (JObj [(''maxAmount'', JNum 10)]) = Some (JsError ''amount exceeds limit'')"
    "failedPolicyCallback noCallbacks = None"
    by (simp_all add: exampleDeps_def noCallbacks_def)
  have a: "executeTool exampleDeps noCallbacks ''QmNone'' []
     = ([CallFindTool ''QmNone''],
        Inl (LitAgentError TOOL_EXECUTION_FAILED ''Tool not found''
               (Details None None (Some ''QmNone'') (Some []) (Some (JsError ''Tool not found'')))))"
    using executeTool_failure_outcomes
      [of "JsError ''Tool not found''" "''QmNone''" "[]" exampleDeps noCallbacks] f(1)
    by simp
  have b: "snd (executeTool ?d1 noCallbacks ''QmTool'' [])
     = Inr \<lparr>success = False, reason = Some (JStr ''Permission denied by user''), result = None\<rparr>"
    using executeTool_failure_outcomes
      [of ?denied "''QmTool''" "[]" ?d1 noCallbacks exampleTool] f(2)
    by simp
  have c: "snd (executeTool ?d2 noCallbacks ''QmTool'' [])
     = Inl (LitAgentError TOOL_EXECUTION_FAILED ''Failed to execute tool''
              (Details None None (Some ''QmTool'') (Some []) (Some (NonError (JStr ''rpc down'')))))"
    using executeTool_failure_outcomes
      [of "NonError (JStr ''rpc down'')" "''QmTool''" "[]" ?d2 noCallbacks exampleTool] f(3)
    by simp
  have d: "snd (executeTool ?d3 noCallbacks ''QmTool'' [])
     = Inr \<lparr>success = False, reason = Some (JStr ''Parameter input cancelled''), result = None\<rparr>"
    using executeTool_failure_outcomes
      [where e = ?cancel and c = "''QmTool''" and ps = "[]" and deps = ?d3
        and options = noCallbacks and t = exampleTool
        and ?tr0.0 = "[CallHandleToolPermission exampleTool]"] f(4) p3
    by simp
  have e: "snd (executeTool exampleDeps noCallbacks ''QmTool'' [(''amount'', ''100'')])
     = Inr \<lparr>success = False, reason = Some (JStr ''amount exceeds limit''), result = None\<rparr>"
    using executeTool_failure_outcomes
      [where e = "JsError ''amount exceeds limit''" and c = "''QmTool''"
        and ps = "[(''amount'', ''100'')]" and deps = exampleDeps and options = noCallbacks
        and t = exampleTool and ?tr0.0 = "[CallHandleToolPermission exampleTool]"
        and fp = "[(''amount'', ''100'')]"
        and ?tr1.0 = "[CallGetToolPolicy ''QmTool'', CallDecodePolicy ''SendERC20'' ''0x01'']"
        and pol = "JObj [(''maxAmount'', JNum 10)]"]
      example_stages v
    by simp
  show ?thesis using a b c d e by simp
qed

text \<open>
  The claim as it is written speaks of every failure raised inside the pipeline. Two
  inputs where it fails: a validator that throws a plain \<open>Error\<close> (no callback), where the
  call returns a failure value instead of throwing; and a policy decoding that throws a
  \<open>LitAgentError\<close> with the message the policy-fetch stage drops, where the call returns
  a success.
\<close>

theorem executeTool_failure_counterexample:
  "validateParamsAgainstPolicy exampleDeps exampleTool [(''amount'', ''100'')]
      (JObj [(''maxAmount'', JNum 10)]) = Some (JsError ''amount exceeds limit'')
 \<and> \<not> isLitAgentError (JsError ''amount exceeds limit'')
 \<and> snd (executeTool exampleDeps noCallbacks ''QmTool'' [(''amount'', ''100'')])
     = Inr \<lparr>success = False, reason = Some (JStr ''amount exceeds limit''), result = None\<rparr>
 \<and> decodePolicy decodeFailsDeps ''SendERC20'' ''0x01''
     = Inl (LitAgentError (OtherErrorType ''INIT'') ''Tool policy manager not initialized''
              (Details None None None None None))
 \<and> snd (executeTool decodeFailsDeps noCallbacks ''QmTool'' [(''amount'', ''100'')])
     = Inr \<lparr>success = True, reason = None,
            result = Some \<lparr>response = ''{\"status\":\"success\"}'', logs = []\<rparr>\<rparr>"
proof -
  have v1: "validationStage exampleDeps noCallbacks exampleTool [(''amount'', ''100'')]
       (JObj [(''maxAmount'', JNum 10)])
     = ([CallValidateParamsAgainstPolicy exampleTool [(''amount'', ''100'')]
           (JObj [(''maxAmount'', JNum 10)])],
        Inl (LitAgentError TOOL_VALIDATION_FAILED ''amount exceeds limit''
               (Details (Some exampleTool) (Some (JObj [(''maxAmount'', JNum 10)])) None None
                  (Some (JsError ''amount exceeds limit'')))))"
    by (simp add: validationStage_def validationFailed_def exampleDeps_def noCallbacks_def)
  have e1: "snd (executeTool exampleDeps noCallbacks ''QmTool'' [(''amount'', ''100'')])
     = Inr \<lparr>success = False, reason = Some (JStr ''amount exceeds limit''), result = None\<rparr>"
    by (simp add: executeTool_def outerCatch_def executeTool_try_def afterPermission_def
        permissionStage_def example_stages v1 failureResult_def)
  have s2: "findTool decodeFailsDeps ''QmTool'' = Inr exampleTool"
    "permissionStage decodeFailsDeps noCallbacks exampleTool
       = ([CallHandleToolPermission exampleTool], Inr None)"
    "validateAndCollectParameters decodeFailsDeps exampleTool ps = Inr ps"
    "policyFetchStage decodeFailsDeps ''QmTool'' exampleTool
       = ([CallGetToolPolicy ''QmTool'', CallDecodePolicy ''SendERC20'' ''0x01''], Inr JNull)"
    "executeAction decodeFailsDeps ''QmTool'' ps
       = Inr \<lparr>response = ''{\"status\":\"success\"}'', logs = []\<rparr>"
    "snd (interpretResult decodeFailsDeps \<lparr>response = ''{\"status\":\"success\"}'', logs = []\<rparr>)
       = \<lparr>success = True, reason = None,
          result = Some \<lparr>response = ''{\"status\":\"success\"}'', logs = []\<rparr>\<rparr>" for ps
    by (simp_all add: decodeFailsDeps_def exampleDeps_def permissionStage_def
        permissionAttempt_def policyFetchStage_def policyFetchAttempt_def exampleTool_def
        noCallbacks_def interpretResult_def structuredError_def exampleParse_def Let_def)
  obtain tr3 where ir:
    "interpretResult decodeFailsDeps \<lparr>response = ''{\"status\":\"success\"}'', logs = []\<rparr>
       = (tr3, \<lparr>success = True, reason = None,
                result = Some \<lparr>response = ''{\"status\":\"success\"}'', logs = []\<rparr>\<rparr>)"
    using s2(6) by (metis prod.collapse)
  have e2: "snd (executeTool decodeFailsDeps noCallbacks ''QmTool'' [(''amount'', ''100'')])
     = Inr \<lparr>success = True, reason = None,
            result = Some \<lparr>response = ''{\"status\":\"success\"}'', logs = []\<rparr>\<rparr>"
    by (simp add: executeTool_def executeTool_try_def afterPermission_def validationStage_def
        s2(1-5) ir)
  show ?thesis
    using e1 e2 by (simp add: exampleDeps_def decodeFailsDeps_def)
qed

subsection \<open>The policy-fetch stage\<close>

text \<open>
  Claim C3. In the policy-fetch stage a failure of the policy read (or of the decoding
  in the same \<open>try\<close> block) that is an \<open>Error\<close> whose message is exactly
  "Tool policy manager not initialized" is dropped: the decoded policy is \<open>null\<close>, the
  validation is skipped and the pipeline goes on to execute the action with the
  collected parameters. Every other failure of the stage leaves it unchanged and ends
  the \<open>try\<close> block.
\<close>

theorem policy_read_failure_swallowed_or_propagated:
  "(getToolPolicy deps c = Inl e \<longrightarrow>
      policyFetchAttempt deps c t = ([CallGetToolPolicy c], Inl e))
 \<and> (policyFetchAttempt deps c t = (tr, Inl e)
      \<and> isError e \<and> messageOf e = ''Tool policy manager not initialized'' \<longrightarrow>
      policyFetchStage deps c t = (tr, Inr JNull))
 \<and> (policyFetchAttempt deps c t = (tr, Inl e)
      \<and> \<not> (isError e \<and> messageOf e = ''Tool policy manager not initialized'') \<longrightarrow>
      policyFetchStage deps c t = (tr, Inl e))
 \<and> (validateAndCollectParameters deps t ps = Inr finalParams
      \<and> policyFetchAttempt deps c t = (tr, Inl e)
      \<and> isError e \<and> messageOf e = ''Tool policy manager not initialized'' \<longrightarrow>
      afterPermission deps options c ps t =
        (case executeAction deps c finalParams of
           Inl e' \<Rightarrow>
             (CallValidateAndCollectParameters t ps # tr @ [CallExecuteAction c finalParams],
              Inl e')
         | Inr raw \<Rightarrow>
             (CallValidateAndCollectParameters t ps # tr @ [CallExecuteAction c finalParams]
                @ fst (interpretResult deps raw),
              Inr (snd (interpretResult deps raw)))))
 \<and> (validateAndCollectParameters deps t ps = Inr finalParams
      \<and> policyFetchAttempt deps c t = (tr, Inl e)
      \<and> \<not> (isError e \<and> messageOf e = ''Tool policy manager not initialized'') \<longrightarrow>
      afterPermission deps options c ps t =
        (CallValidateAndCollectParameters t ps # tr, Inl e))"
  by (auto simp: policyFetchAttempt_def policyFetchStage_def afterPermission_def
      validationStage_def split: sum.splits prod.splits)

theorem policy_read_failure_swallowed_or_propagated_witness:
  "policyFetchStage (exampleDeps\<lparr>getToolPolicy := (\<lambda>c. Inl
       (JsError ''Tool policy manager not initialized''))\<rparr>) ''QmTool'' exampleTool
     = ([CallGetToolPolicy ''QmTool''], Inr JNull)
 \<and> policyFetchStage (exampleDeps\<lparr>getToolPolicy := (\<lambda>c. Inl
       (JsError ''network timeout''))\<rparr>) ''QmTool'' exampleTool
     = ([CallGetToolPolicy ''QmTool''], Inl (JsError ''network timeout''))
 \<and> policyFetchStage (exampleDeps\<lparr>getToolPolicy := (\<lambda>c. Inl
       (NonError (JStr ''Tool policy manager not initialized'')))\<rparr>) ''QmTool'' exampleTool
     = ([CallGetToolPolicy ''QmTool''],
        Inl (NonError (JStr ''Tool policy manager not initialized'')))"
proof -
  let ?d1 = "exampleDeps\<lparr>getToolPolicy := (\<lambda>c. Inl
       (JsError ''Tool policy manager not initialized''))\<rparr>"
  let ?d2 = "exampleDeps\<lparr>getToolPolicy := (\<lambda>c. Inl (JsError ''network timeout''))\<rparr>"
  let ?d3 = "exampleDeps\<lparr>getToolPolicy := (\<lambda>c. Inl
       (NonError (JStr ''Tool policy manager not initialized'')))\<rparr>"
  have a1: "policyFetchAttempt ?d1 ''QmTool'' exampleTool
      = ([CallGetToolPolicy ''QmTool''], Inl (JsError ''Tool policy manager not initialized''))"
    using policy_read_failure_swallowed_or_propagated
      [of ?d1 "''QmTool''" "JsError ''Tool policy manager not initialized''" exampleTool]
    by simp
  have a2: "policyFetchAttempt ?d2 ''QmTool'' exampleTool
      = ([CallGetToolPolicy ''QmTool''], Inl (JsError ''network timeout''))"
    using policy_read_failure_swallowed_or_propagated
      [of ?d2 "''QmTool''" "JsError ''network timeout''" exampleTool]
    by simp
  have a3: "policyFetchAttempt ?d3 ''QmTool'' exampleTool
      = ([CallGetToolPolicy ''QmTool''],
         Inl (NonError (JStr ''Tool policy manager not initialized'')))"
    using policy_read_failure_swallowed_or_propagated
      [of ?d3 "''QmTool''" "NonError (JStr ''Tool policy manager not initialized'')" exampleTool]
    by simp
  show ?thesis
    using policy_read_failure_swallowed_or_propagated
        [of ?d1 "''QmTool''" "JsError ''Tool policy manager not initialized''" exampleTool
          "[CallGetToolPolicy ''QmTool'']"]
      policy_read_failure_swallowed_or_propagated
        [of ?d2 "''QmTool''" "JsError ''network timeout''" exampleTool
          "[CallGetToolPolicy ''QmTool'']"]
      policy_read_failure_swallowed_or_propagated
        [of ?d3 "''QmTool''" "NonError (JStr ''Tool policy manager not initialized'')"
          exampleTool "[CallGetToolPolicy ''QmTool'']"]
      a1 a2 a3
    by simp
qed

subsection \<open>The validation stage\<close>

text \<open>
  What holds of the claim: with a decoded policy and a first validation that throws an
  \<open>Error\<close>, a supplied \<open>failedPolicyCallback\<close> is called once, and the parameters are
  validated at most once more. Without a replacement (or without a callback, or for a
  thrown value that is not an \<open>Error\<close>) the stage throws a \<open>TOOL_VALIDATION_FAILED\<close>
  error with the tool, the policy and the validation error.
\<close>

lemma validation_callback_once:
  assumes "truthy pol" "validateParamsAgainstPolicy deps t fp pol = Some e" "isError e"
    and "failedPolicyCallback options = Some callback"
  shows "length (filter isCallbackCall (fst (validationStage deps options t fp pol))) = 1
       \<and> length (filter isValidateCall (fst (validationStage deps options t fp pol))) \<le> 2"
  using assms
  by (auto simp: validationStage_def validationFailed_def split: sum.splits option.splits)

lemma validation_without_replacement:
  assumes "truthy pol" "validateParamsAgainstPolicy deps t fp pol = Some e"
    and "failedPolicyCallback options = None \<or> \<not> isError e
         \<or> (\<exists>callback. failedPolicyCallback options = Some callback
               \<and> callback t fp pol e = Inr None)"
  shows "\<exists>tr msg. validationStage deps options t fp pol =
           (tr, Inl (LitAgentError TOOL_VALIDATION_FAILED msg
                       (Details (Some t) (Some pol) None None (Some e))))"
  using assms
  by (auto simp: validationStage_def validationFailed_def split: sum.splits option.splits)

lemma validation_replacement_accepted:
  assumes "truthy pol" "validateParamsAgainstPolicy deps t fp pol = Some e" "isError e"
    and "failedPolicyCallback options = Some callback"
    and "callback t fp pol e = Inr (Some np)"
    and "validateParamsAgainstPolicy deps t np pol = None"
  shows "validationStage deps options t fp pol =
     ([CallValidateParamsAgainstPolicy t fp pol, CallFailedPolicyCallback t fp pol e,
       CallValidateParamsAgainstPolicy t np pol], Inr np)"
  using assms by (simp add: validationStage_def validationFailed_def)

text \<open>
  Where the code leaves the claim: a second validation that fails throws its error out
  of the \<open>catch\<close> block as it is, with no \<open>TOOL_VALIDATION_FAILED\<close> error around it.
\<close>

lemma validation_replacement_rejected:
  assumes "truthy pol" "validateParamsAgainstPolicy deps t fp pol = Some e" "isError e"
    and "failedPolicyCallback options = Some callback"
    and "callback t fp pol e = Inr (Some np)"
    and "validateParamsAgainstPolicy deps t np pol = Some e2"
  shows "validationStage deps options t fp pol =
     ([CallValidateParamsAgainstPolicy t fp pol, CallFailedPolicyCallback t fp pol e,
       CallValidateParamsAgainstPolicy t np pol], Inl e2)"
  using assms by (simp add: validationStage_def validationFailed_def)

text \<open>
  Claim C4, at the input where the code leaves it. The policy has a limit, the validator
  rejects the amounts 100 and 50 with an \<open>Error\<close>, and the callback answers the first
  failure with the amount 50. The callback is called once and the replacement is
  validated once; its failure leaves the stage as the validator threw it, so
  \<open>executeTool\<close> throws a \<open>TOOL_EXECUTION_FAILED\<close> error whose context has the CID
  and the initial parameters and no policy. When the callback gives no replacement, the
  stage throws \<open>TOOL_VALIDATION_FAILED\<close> with the tool and the policy, and
  \<open>executeTool\<close> returns a failure value.
\<close>

theorem second_validation_failure_not_wrapped:
  "validationStage exampleDeps (retryWith ''50'') exampleTool [(''amount'', ''100'')]
       (JObj [(''maxAmount'', JNum 10)])
     = ([CallValidateParamsAgainstPolicy exampleTool [(''amount'', ''100'')]
           (JObj [(''maxAmount'', JNum 10)]),
         CallFailedPolicyCallback exampleTool [(''amount'', ''100'')]
           (JObj [(''maxAmount'', JNum 10)]) (JsError ''amount exceeds limit''),
         CallValidateParamsAgainstPolicy exampleTool [(''amount'', ''50'')]
           (JObj [(''maxAmount'', JNum 10)])],
        Inl (JsError ''amount exceeds limit''))
 \<and> snd (executeTool exampleDeps (retryWith ''50'') ''QmTool'' [(''amount'', ''100'')])
     = Inl (LitAgentError TOOL_EXECUTION_FAILED ''amount exceeds limit''
              (Details None None (Some ''QmTool'') (Some [(''amount'', ''100'')])
                 (Some (JsError ''amount exceeds limit''))))
 \<and> validationStage exampleDeps retryDeclined exampleTool [(''amount'', ''100'')]
       (JObj [(''maxAmount'', JNum 10)])
     = ([CallValidateParamsAgainstPolicy exampleTool [(''amount'', ''100'')]
           (JObj [(''maxAmount'', JNum 10)]),
         CallFailedPolicyCallback exampleTool [(''amount'', ''100'')]
           (JObj [(''maxAmount'', JNum 10)]) (JsError ''amount exceeds limit'')],
        Inl (LitAgentError TOOL_VALIDATION_FAILED ''amount exceeds limit''
               (Details (Some exampleTool) (Some (JObj [(''maxAmount'', JNum 10)])) None None
                  (Some (JsError ''amount exceeds limit'')))))
 \<and> snd (executeTool exampleDeps retryDeclined ''QmTool'' [(''amount'', ''100'')])
     = Inr \<lparr>success = False, reason = Some (JStr ''amount exceeds limit''), result = None\<rparr>"
proof -
  have v1: "validationStage exampleDeps (retryWith ''50'') exampleTool [(''amount'', ''100'')]
       (JObj [(''maxAmount'', JNum 10)])
     = ([CallValidateParamsAgainstPolicy exampleTool [(''amount'', ''100'')]
           (JObj [(''maxAmount'', JNum 10)]),
         CallFailedPolicyCallback exampleTool [(''amount'', ''100'')]
           (JObj [(''maxAmount'', JNum 10)]) (JsError ''amount exceeds limit''),
         CallValidateParamsAgainstPolicy exampleTool [(''amount'', ''50'')]
           (JObj [(''maxAmount'', JNum 10)])],
        Inl (JsError ''amount exceeds limit''))"
    by (simp add: validationStage_def validationFailed_def exampleDeps_def retryWith_def)
  have v2: "validationStage exampleDeps retryDeclined exampleTool [(''amount'', ''100'')]
       (JObj [(''maxAmount'', JNum 10)])
     = ([CallValidateParamsAgainstPolicy exampleTool [(''amount'', ''100'')]
           (JObj [(''maxAmount'', JNum 10)]),
         CallFailedPolicyCallback exampleTool [(''amount'', ''100'')]
           (JObj [(''maxAmount'', JNum 10)]) (JsError ''amount exceeds limit'')],
        Inl (LitAgentError TOOL_VALIDATION_FAILED ''amount exceeds limit''
               (Details (Some exampleTool) (Some (JObj [(''maxAmount'', JNum 10)])) None None
                  (Some (JsError ''amount exceeds limit'')))))"
    by (simp add: validationStage_def validationFailed_def exampleDeps_def retryDeclined_def)
  have pre: "findTool exampleDeps ''QmTool'' = Inr exampleTool"
    "permissionStage exampleDeps options exampleTool = ([CallHandleToolPermission exampleTool], Inr None)"
    "validateAndCollectParameters exampleDeps exampleTool ps = Inr ps"
    "policyFetchStage exampleDeps ''QmTool'' exampleTool =
       ([CallGetToolPolicy ''QmTool'', CallDecodePolicy ''SendERC20'' ''0x01''],
        Inr (JObj [(''maxAmount'', JNum 10)]))" for options ps
    by (simp_all add: exampleDeps_def permissionStage_def permissionAttempt_def
        policyFetchStage_def policyFetchAttempt_def exampleTool_def)
  have e1: "snd (executeTool exampleDeps (retryWith ''50'') ''QmTool'' [(''amount'', ''100'')])
     = Inl (LitAgentError TOOL_EXECUTION_FAILED ''amount exceeds limit''
              (Details None None (Some ''QmTool'') (Some [(''amount'', ''100'')])
                 (Some (JsError ''amount exceeds limit''))))"
    by (simp add: executeTool_def outerCatch_def executeTool_try_def afterPermission_def pre v1)
  have e2: "snd (executeTool exampleDeps retryDeclined ''QmTool'' [(''amount'', ''100'')])
     = Inr \<lparr>success = False, reason = Some (JStr ''amount exceeds limit''), result = None\<rparr>"
    by (simp add: executeTool_def outerCatch_def executeTool_try_def afterPermission_def pre v2 failureResult_def)
  show ?thesis using v1 v2 e1 e2 by simp
qed

subsection \<open>The interpretation of the raw result\<close>

lemma js_to_string_JObj:
  "js_to_string pr (JObj gs) =
     (if ''toString'' \<in> fst ` set gs then None else Some ''[object Object]'')"
  by simp

lemma js_append_JStr: "js_append pr (JStr s) u = Some (JStr (s @ u))"
  by (simp add: js_append_def)

lemma appendDetail_chain:
  "(case appendDetail pr l1 r base of
      None \<Rightarrow> None
    | Some m1 \<Rightarrow>
        (case appendDetail pr l2 k m1 of
           None \<Rightarrow> None
         | Some m2 \<Rightarrow> appendDetail pr l3 m m2))
   = (if truthy r \<or> truthy k \<or> truthy m
      then (case js_to_string pr base of
              None \<Rightarrow> None
            | Some tb \<Rightarrow>
                (case detailText pr l1 r of
                   None \<Rightarrow> None
                 | Some a \<Rightarrow>
                     (case detailText pr l2 k of
                        None \<Rightarrow> None
                      | Some b \<Rightarrow>
                          (case detailText pr l3 m of
                             None \<Rightarrow> None
                           | Some d \<Rightarrow> Some (JStr (tb @ a @ b @ d))))))
      else Some base)"
  by (cases "truthy r"; cases "truthy k"; cases "truthy m"; cases "js_to_string pr base";
      cases "js_to_string pr r"; cases "js_to_string pr k"; cases "js_to_string pr m";
      simp add: appendDetail_def detailText_def js_append_def)

lemma errorMessageOf_cases:
  "errorMessageOf pr (JObj fs) =
     (let base = js_get_opt (JObj fs) ''error'';
          details = js_get_opt (JObj fs) ''details'';
          r = js_get_opt details ''reason'';
          k = js_get_opt details ''code'';
          m = js_get_opt (js_get_opt details ''error'') ''message''
      in if truthy details \<and> (truthy r \<or> truthy k \<or> truthy m)
         then (case js_to_string pr base of
                 None \<Rightarrow> None
               | Some tb \<Rightarrow>
                   (case detailText pr ''\<newline>Reason: '' r of
                      None \<Rightarrow> None
                    | Some a \<Rightarrow>
                        (case detailText pr ''\<newline>Code: '' k of
                           None \<Rightarrow> None
                         | Some b \<Rightarrow>
                             (case detailText pr ''\<newline>Details: '' m of
                                None \<Rightarrow> None
                              | Some d \<Rightarrow> Some (JStr (tb @ a @ b @ d))))))
         else Some base)"
  by (simp add: errorMessageOf_def Let_def appendDetail_chain)

lemma structuredError_Some:
  "JSON_parse deps body = Inr (JObj fs) \<Longrightarrow> map_of fs ''status'' = Some (JStr ''error'')
     \<Longrightarrow> structuredError deps body = errorMessageOf (numberToString deps) (JObj fs)"
  by (simp add: structuredError_def)

lemma structuredError_None_iff:
  "structuredError deps body = None \<longleftrightarrow>
     (\<forall>parsed. JSON_parse deps body = Inr parsed \<longrightarrow>
        js_get parsed ''status'' \<noteq> Some (JStr ''error'')
        \<or> errorMessageOf (numberToString deps) parsed = None)"
  by (auto simp: structuredError_def split: sum.splits option.splits)

lemma firstGroupAfter_Some:
  "firstGroupAfter p s = Some m \<Longrightarrow>
     \<exists>pre rest. s = pre @ p @ m @ rest \<and> m \<noteq> [] \<and> CHR ''\<newline>'' \<notin> set m
        \<and> (rest = [] \<or> hd rest = CHR ''\<newline>'')
        \<and> (\<forall>q r. s = q @ p @ r \<and> length q < length pre \<longrightarrow>
               r = [] \<or> hd r = CHR ''\<newline>'')"
proof (induction s)
  case Nil
  then show ?case by simp
next
  case (Cons c cs)
  let ?s = "c # cs"
  let ?m = "takeWhile (\<lambda>x. x \<noteq> CHR ''\<newline>'') (drop (length p) ?s)"
  let ?r = "dropWhile (\<lambda>x. x \<noteq> CHR ''\<newline>'') (drop (length p) ?s)"
  show ?case
  proof (cases "take (length p) ?s = p \<and> ?m \<noteq> []")
    case True
    then have m: "m = ?m" using Cons.prems by simp
    have "?s = take (length p) ?s @ ?m @ ?r"
      by (simp only: takeWhile_dropWhile_id append_take_drop_id)
    then have dec: "?s = [] @ p @ m @ ?r"
      using True m by simp
    have nl: "CHR ''\<newline>'' \<notin> set m"
      unfolding m by (metis (mono_tags, lifting) set_takeWhileD)
    have tl: "?r = [] \<or> hd ?r = CHR ''\<newline>''"
      using hd_dropWhile [of "\<lambda>x. x \<noteq> CHR ''\<newline>''" "drop (length p) ?s"] by blast
    have "?s = [] @ p @ m @ ?r \<and> m \<noteq> [] \<and> CHR ''\<newline>'' \<notin> set m
        \<and> (?r = [] \<or> hd ?r = CHR ''\<newline>'')
        \<and> (\<forall>q r. ?s = q @ p @ r \<and> length q < length ([] :: string) \<longrightarrow>
               r = [] \<or> hd r = CHR ''\<newline>'')"
      using dec nl tl True m by simp
    then show ?thesis by blast
  next
    case False
    then have "firstGroupAfter p cs = Some m" using Cons.prems by (simp split: if_splits)
    from Cons.IH [OF this] obtain pre rest where ih:
      "cs = pre @ p @ m @ rest" "m \<noteq> []" "CHR ''\<newline>'' \<notin> set m"
      "rest = [] \<or> hd rest = CHR ''\<newline>''"
      "\<forall>q r. cs = q @ p @ r \<and> length q < length pre \<longrightarrow> r = [] \<or> hd r = CHR ''\<newline>''"
      by blast
    have dec: "c # cs = (c # pre) @ p @ m @ rest" using ih(1) by simp
    have left: "r = [] \<or> hd r = CHR ''\<newline>''"
      if "c # cs = q @ p @ r" "length q < length (c # pre)" for q r
    proof (cases q)
      case Nil
      then have "c # cs = p @ r" using that(1) by simp
      then have "take (length p) (c # cs) = p" "drop (length p) (c # cs) = r" by simp_all
      then have "takeWhile (\<lambda>x. x \<noteq> CHR ''\<newline>'') r = []" using False by simp
      then show ?thesis by (cases r) (auto split: if_splits)
    next
      case (Cons q0 q')
      then have "cs = q' @ p @ r" "length q' < length pre" using that by simp_all
      then show ?thesis using ih(5) by blast
    qed
    show ?thesis
      using dec ih(2,3,4) left by blast
  qed
qed

lemma firstGroupAfter_None:
  "firstGroupAfter p s = None \<Longrightarrow> s = pre @ p @ rest
     \<Longrightarrow> rest = [] \<or> hd rest = CHR ''\<newline>''"
proof (induction s arbitrary: pre)
  case Nil
  then show ?case by simp
next
  case (Cons c cs)
  show ?case
  proof (cases pre)
    case Nil
    then have s: "c # cs = p @ rest" using Cons.prems(2) by simp
    then have "take (length p) (c # cs) = p" "drop (length p) (c # cs) = rest"
      by simp_all
    then have "takeWhile (\<lambda>x. x \<noteq> CHR ''\<newline>'') rest = []"
      using Cons.prems(1) by (simp split: if_splits)
    then show ?thesis by (cases rest) (auto split: if_splits)
  next
    case (Cons q pre')
    then have "cs = pre' @ p @ rest" using Cons.prems(2) by simp
    moreover have "firstGroupAfter p cs = None" using Cons.prems(1) by (simp split: if_splits)
    ultimately show ?thesis using Cons.IH by blast
  qed
qed

lemma includes_str_iff: "includes_str s p \<longleftrightarrow> (\<exists>pre rest. s = pre @ p @ rest)"
proof (induction s)
  case Nil
  then show ?case by auto
next
  case (Cons c cs)
  show ?case
  proof (cases "take (length p) (c # cs) = p")
    case True
    then have "c # cs = [] @ p @ drop (length p) (c # cs)"
      by (metis append_Nil append_take_drop_id)
    then show ?thesis using True by (metis includes_str.simps(2))
  next
    case False
    have "(\<exists>pre rest. c # cs = pre @ p @ rest) \<longleftrightarrow> (\<exists>pre rest. cs = pre @ p @ rest)"
    proof
      assume "\<exists>pre rest. c # cs = pre @ p @ rest"
      then obtain pre rest where d: "c # cs = pre @ p @ rest" by blast
      show "\<exists>pre rest. cs = pre @ p @ rest"
      proof (cases pre)
        case Nil
        then have "take (length p) (c # cs) = p" using d by (simp add: append_eq_conv_conj)
        then show ?thesis using False by simp
      next
        case (Cons q pre')
        then show ?thesis using d by auto
      qed
    next
      assume "\<exists>pre rest. cs = pre @ p @ rest"
      then obtain pre rest where "cs = pre @ p @ rest" by blast
      then have "c # cs = (c # pre) @ p @ rest" by simp
      then show "\<exists>pre rest. c # cs = pre @ p @ rest" by blast
    qed
    then show ?thesis using False Cons.IH by simp
  qed
qed

lemma errorMatch_Some_includes: "errorMatch s = Some m \<Longrightarrow> includes_str s ''Error:''"
  unfolding errorMatch_def includes_str_iff
  using firstGroupAfter_Some [of "''Error:''" s m] by blast

lemma trim_decomposition:
  "\<exists>a b. s = a @ trim s @ b \<and> list_all is_js_space a \<and> list_all is_js_space b
     \<and> (trim s = [] \<or> (\<not> is_js_space (hd (trim s)) \<and> \<not> is_js_space (last (trim s))))"
proof -
  let ?a = "takeWhile is_js_space s"
  let ?t = "dropWhile is_js_space s"
  let ?b = "rev (takeWhile is_js_space (rev ?t))"
  have t: "?t = trim s @ ?b"
  proof -
    have "rev ?t = takeWhile is_js_space (rev ?t) @ dropWhile is_js_space (rev ?t)" by simp
    then have "rev (rev ?t) = rev (dropWhile is_js_space (rev ?t)) @ ?b"
      by (metis rev_append)
    then show ?thesis by (simp add: trim_def)
  qed
  have dec: "s = ?a @ trim s @ ?b"
    using t by (metis takeWhile_dropWhile_id)
  have wa: "list_all is_js_space ?a"
    by (simp add: list_all_iff) (metis set_takeWhileD)
  have wb: "list_all is_js_space ?b"
    by (simp add: list_all_iff) (metis set_takeWhileD)
  have ends: "\<not> is_js_space (hd (trim s)) \<and> \<not> is_js_space (last (trim s))" if ne: "trim s \<noteq> []"
  proof -
    have "?t \<noteq> []" using t ne by (metis append_is_Nil_conv)
    then have "\<not> is_js_space (hd ?t)" by (rule hd_dropWhile)
    moreover have "hd ?t = hd (trim s)" using t ne by (metis hd_append2)
    moreover have "dropWhile is_js_space (rev ?t) \<noteq> []" using ne by (simp add: trim_def)
    then have "\<not> is_js_space (hd (dropWhile is_js_space (rev ?t)))" by (rule hd_dropWhile)
    moreover have "last (trim s) = hd (dropWhile is_js_space (rev ?t))"
      using ne by (simp add: trim_def last_rev)
    ultimately show ?thesis by simp
  qed
  show ?thesis using dec wa wb ends by blast
qed

text \<open>
  Claim C2, as the code has it. (a) When the response is not empty, parses to an
  object whose \<open>status\<close> is \<open>"error"\<close>, and the message is built without a TypeError,
  the result is a failure value with the raw result, whatever the logs are. Its reason
  is the \<open>error\<close> field as it is when no detail is truthy; otherwise it is the text of
  the \<open>error\<close> field followed by "\nReason: ", "\nCode: " and "\nDetails: " with
  the text of \<open>details.reason\<close>, \<open>details.code\<close> and \<open>details.error.message\<close>, each
  only when it is truthy (a detail that is \<open>0\<close>, \<open>""\<close>, \<open>false\<close> or \<open>null\<close> is left
  out). Taking the text of an object with a \<open>toString\<close> key of its own throws; the
  TypeError is dropped with everything else the \<open>try\<close> block throws, and the code goes
  on as if there were no structured error. (b) Without a structured error, when
  somewhere in the logs \<open>Error:\<close> is followed by a character other than a newline, the
  result is a failure value whose reason is "Lit Action error: " and the text between
  the leftmost such marker and the next newline (or the end), with the white space at
  both ends removed. (c) Otherwise the result is a success with the raw result: also
  when the logs have \<open>Error:\<close> only at their end or before a newline.
\<close>

theorem result_interpretation_precedence:
  "(response raw \<noteq> [] \<and> JSON_parse deps (response raw) = Inr (JObj fs)
      \<and> map_of fs ''status'' = Some (JStr ''error'')
      \<and> errorMessageOf (numberToString deps) (JObj fs) = Some msg \<longrightarrow>
      snd (interpretResult deps raw) =
        \<lparr>success = False, reason = Some msg, result = Some raw\<rparr>)
 \<and> errorMessageOf pr (JObj fs) =
      (let base = js_get_opt (JObj fs) ''error'';
           details = js_get_opt (JObj fs) ''details'';
           r = js_get_opt details ''reason'';
           k = js_get_opt details ''code'';
           m = js_get_opt (js_get_opt details ''error'') ''message''
       in if truthy details \<and> (truthy r \<or> truthy k \<or> truthy m)
          then (case js_to_string pr base of
                  None \<Rightarrow> None
                | Some tb \<Rightarrow>
                    (case detailText pr ''\<newline>Reason: '' r of
                       None \<Rightarrow> None
                     | Some a \<Rightarrow>
                         (case detailText pr ''\<newline>Code: '' k of
                            None \<Rightarrow> None
                          | Some b \<Rightarrow>
                              (case detailText pr ''\<newline>Details: '' m of
                                 None \<Rightarrow> None
                               | Some d \<Rightarrow> Some (JStr (tb @ a @ b @ d))))))
          else Some base)
 \<and> js_to_string pr (JObj gs) =
      (if ''toString'' \<in> fst ` set gs then None else Some ''[object Object]'')
 \<and> js_to_string pr (JStr txt0) = Some txt0
 \<and> js_to_string pr (JNum n) = Some (pr n)
 \<and> ((response raw = [] \<or> structuredError deps (response raw) = None)
      \<and> errorMatch (logs raw) = Some found \<longrightarrow>
      snd (interpretResult deps raw) =
        \<lparr>success = False, reason = Some (JStr (''Lit Action error: '' @ trim found)),
         result = Some raw\<rparr>
    \<and> (\<exists>pre rest. logs raw = pre @ ''Error:'' @ found @ rest \<and> found \<noteq> []
          \<and> CHR ''\<newline>'' \<notin> set found \<and> (rest = [] \<or> hd rest = CHR ''\<newline>'')
          \<and> (\<forall>q r. logs raw = q @ ''Error:'' @ r \<and> length q < length pre \<longrightarrow>
                 r = [] \<or> hd r = CHR ''\<newline>'')))
 \<and> ((response raw = [] \<or> structuredError deps (response raw) = None)
      \<and> errorMatch (logs raw) = None \<longrightarrow>
      snd (interpretResult deps raw) = \<lparr>success = True, reason = None, result = Some raw\<rparr>)
 \<and> (structuredError deps body = None \<longleftrightarrow>
      (\<forall>parsed. JSON_parse deps body = Inr parsed \<longrightarrow>
         js_get parsed ''status'' \<noteq> Some (JStr ''error'')
         \<or> errorMessageOf (numberToString deps) parsed = None))
 \<and> (errorMatch body = None \<longleftrightarrow>
      (\<forall>pre rest. body = pre @ ''Error:'' @ rest \<longrightarrow> rest = [] \<or> hd rest = CHR ''\<newline>''))
 \<and> (\<exists>a b. body = a @ trim body @ b \<and> list_all is_js_space a \<and> list_all is_js_space b
        \<and> (trim body = [] \<or>
             (\<not> is_js_space (hd (trim body)) \<and> \<not> is_js_space (last (trim body)))))
 \<and> (is_js_space ch \<longleftrightarrow>
      ch \<in> {CHR 0x09, CHR ''\<newline>'', CHR 0x0B, CHR 0x0C, CHR 0x0D, CHR '' '', CHR 0xA0})
 \<and> (truthy v \<longleftrightarrow>
      v \<noteq> JUndefined \<and> v \<noteq> JNull \<and> v \<noteq> JBool False \<and> v \<noteq> JNum 0 \<and> v \<noteq> JStr [])
 \<and> js_get_opt v key =
      (case v of
         JObj hs \<Rightarrow> (case map_of hs key of None \<Rightarrow> JUndefined | Some w \<Rightarrow> w)
       | _ \<Rightarrow> JUndefined)
 \<and> js_get v key =
      (case v of JUndefined \<Rightarrow> None | JNull \<Rightarrow> None | _ \<Rightarrow> Some (js_get_opt v key))
 \<and> detailText pr label v =
      (if truthy v
       then (case js_to_string pr v of None \<Rightarrow> None | Some t \<Rightarrow> Some (label @ t))
       else Some [])
 \<and> js_to_string pr JUndefined = Some ''undefined''
 \<and> js_to_string pr JNull = Some ''null''
 \<and> js_to_string pr (JBool bl) = Some (if bl then ''true'' else ''false'')
 \<and> js_to_string pr (JArr xs) =
      (let parts = map (\<lambda>x. case x of JUndefined \<Rightarrow> Some [] | JNull \<Rightarrow> Some []
                                 | _ \<Rightarrow> js_to_string pr x) xs
       in if None \<in> set parts then None else Some (join_with '','' (map the parts)))"
proof -
  have a: "snd (interpretResult deps raw) =
        \<lparr>success = False, reason = Some msg, result = Some raw\<rparr>"
    if "response raw \<noteq> []" "JSON_parse deps (response raw) = Inr (JObj fs)"
      "map_of fs ''status'' = Some (JStr ''error'')"
      "errorMessageOf (numberToString deps) (JObj fs) = Some msg"
    using that structuredError_Some [OF that(2,3)] by (simp add: interpretResult_def Let_def)
  have b: "snd (interpretResult deps raw) =
        \<lparr>success = False, reason = Some (JStr (''Lit Action error: '' @ trim found)),
         result = Some raw\<rparr>"
    if "response raw = [] \<or> structuredError deps (response raw) = None"
      "errorMatch (logs raw) = Some found"
  proof -
    have "logs raw \<noteq> []" using that(2) by (auto simp: errorMatch_def)
    moreover have "includes_str (logs raw) ''Error:''"
      using that(2) by (rule errorMatch_Some_includes)
    ultimately show ?thesis using that by (auto simp: interpretResult_def Let_def)
  qed
  have b': "\<exists>pre rest. logs raw = pre @ ''Error:'' @ found @ rest \<and> found \<noteq> []
          \<and> CHR ''\<newline>'' \<notin> set found \<and> (rest = [] \<or> hd rest = CHR ''\<newline>'')
          \<and> (\<forall>q r. logs raw = q @ ''Error:'' @ r \<and> length q < length pre \<longrightarrow>
                 r = [] \<or> hd r = CHR ''\<newline>'')"
    if "errorMatch (logs raw) = Some found"
    using that firstGroupAfter_Some [of "''Error:''" "logs raw" found]
    unfolding errorMatch_def by blast
  have c: "snd (interpretResult deps raw) = \<lparr>success = True, reason = None, result = Some raw\<rparr>"
    if "response raw = [] \<or> structuredError deps (response raw) = None"
      "errorMatch (logs raw) = None"
    using that by (auto simp: interpretResult_def Let_def)
  have d: "errorMatch body = None \<longleftrightarrow>
      (\<forall>pre rest. body = pre @ ''Error:'' @ rest \<longrightarrow> rest = [] \<or> hd rest = CHR ''\<newline>'')"
  proof
    assume "errorMatch body = None"
    then show "\<forall>pre rest. body = pre @ ''Error:'' @ rest \<longrightarrow> rest = [] \<or> hd rest = CHR ''\<newline>''"
      unfolding errorMatch_def using firstGroupAfter_None by blast
  next
    assume r: "\<forall>pre rest. body = pre @ ''Error:'' @ rest \<longrightarrow> rest = [] \<or> hd rest = CHR ''\<newline>''"
    show "errorMatch body = None"
    proof (rule ccontr)
      assume "errorMatch body \<noteq> None"
      then obtain found where "errorMatch body = Some found" by blast
      then obtain pre rest where "body = pre @ ''Error:'' @ found @ rest" "found \<noteq> []"
        "CHR ''\<newline>'' \<notin> set found"
        using firstGroupAfter_Some [of "''Error:''" body found] unfolding errorMatch_def by blast
      moreover from this r have "found @ rest = [] \<or> hd (found @ rest) = CHR ''\<newline>''" by blast
      ultimately show False by (cases found) auto
    qed
  qed
  have e: "is_js_space ch \<longleftrightarrow>
      ch \<in> {CHR 0x09, CHR ''\<newline>'', CHR 0x0B, CHR 0x0C, CHR 0x0D, CHR '' '', CHR 0xA0}"
    by (simp add: is_js_space_def)
  have f: "js_to_string pr (JStr txt0) = Some txt0" "js_to_string pr (JNum n) = Some (pr n)"
    by simp_all
  have g: "truthy v \<longleftrightarrow>
      v \<noteq> JUndefined \<and> v \<noteq> JNull \<and> v \<noteq> JBool False \<and> v \<noteq> JNum 0 \<and> v \<noteq> JStr []"
    by (cases v) auto
  have h: "js_get_opt v key =
      (case v of
         JObj hs \<Rightarrow> (case map_of hs key of None \<Rightarrow> JUndefined | Some w \<Rightarrow> w)
       | _ \<Rightarrow> JUndefined)"
    by (cases v) simp_all
  have i: "js_get v key =
      (case v of JUndefined \<Rightarrow> None | JNull \<Rightarrow> None | _ \<Rightarrow> Some (js_get_opt v key))"
    by (cases v) (simp_all split: option.splits)
  have j: "detailText pr label v =
      (if truthy v
       then (case js_to_string pr v of None \<Rightarrow> None | Some t \<Rightarrow> Some (label @ t))
       else Some [])"
    by (simp add: detailText_def)
  have k: "js_to_string pr JUndefined = Some ''undefined''" "js_to_string pr JNull = Some ''null''"
    "js_to_string pr (JBool bl) = Some (if bl then ''true'' else ''false'')"
    "js_to_string pr (JArr xs) =
      (let parts = map (\<lambda>x. case x of JUndefined \<Rightarrow> Some [] | JNull \<Rightarrow> Some []
                                 | _ \<Rightarrow> js_to_string pr x) xs
       in if None \<in> set parts then None else Some (join_with '','' (map the parts)))"
    by simp_all
  have first: "(response raw \<noteq> [] \<and> JSON_parse deps (response raw) = Inr (JObj fs)
      \<and> map_of fs ''status'' = Some (JStr ''error'')
      \<and> errorMessageOf (numberToString deps) (JObj fs) = Some msg \<longrightarrow>
      snd (interpretResult deps raw) =
        \<lparr>success = False, reason = Some msg, result = Some raw\<rparr>)
    \<and> ((response raw = [] \<or> structuredError deps (response raw) = None)
      \<and> errorMatch (logs raw) = Some found \<longrightarrow>
      snd (interpretResult deps raw) =
        \<lparr>success = False, reason = Some (JStr (''Lit Action error: '' @ trim found)),
         result = Some raw\<rparr>
    \<and> (\<exists>pre rest. logs raw = pre @ ''Error:'' @ found @ rest \<and> found \<noteq> []
          \<and> CHR ''\<newline>'' \<notin> set found \<and> (rest = [] \<or> hd rest = CHR ''\<newline>'')
          \<and> (\<forall>q r. logs raw = q @ ''Error:'' @ r \<and> length q < length pre \<longrightarrow>
                 r = [] \<or> hd r = CHR ''\<newline>'')))
    \<and> ((response raw = [] \<or> structuredError deps (response raw) = None)
      \<and> errorMatch (logs raw) = None \<longrightarrow>
      snd (interpretResult deps raw) = \<lparr>success = True, reason = None, result = Some raw\<rparr>)"
    using a b b' c by blast
  show ?thesis
    using first d e f g h i j k errorMessageOf_cases [of pr fs]
      structuredError_None_iff [of deps body] js_to_string_JObj [of pr gs]
      trim_decomposition [of body]
    by simp
qed

theorem result_interpretation_precedence_witness:
  "snd (interpretResult exampleDeps
     \<lparr>response = ''{\"status\":\"error\",\"error\":\"bad input\",\"details\":{\"reason\":\"x\",\"code\":42}}'',
      logs = ''step 1\<newline>Error: oops''\<rparr>)
   = \<lparr>success = False,
      reason = Some (JStr ''bad input\<newline>Reason: x\<newline>Code: 42''),
      result = Some
        \<lparr>response = ''{\"status\":\"error\",\"error\":\"bad input\",\"details\":{\"reason\":\"x\",\"code\":42}}'',
         logs = ''step 1\<newline>Error: oops''\<rparr>\<rparr>
 \<and> snd (interpretResult exampleDeps
     \<lparr>response = ''done'', logs = ''step 1 Error: oops\<newline>more''\<rparr>)
   = \<lparr>success = False, reason = Some (JStr ''Lit Action error: oops''),
      result = Some \<lparr>response = ''done'', logs = ''step 1 Error: oops\<newline>more''\<rparr>\<rparr>
 \<and> snd (interpretResult exampleDeps
     \<lparr>response = ''{\"status\":\"success\"}'', logs = ''step 1''\<rparr>)
   = \<lparr>success = True, reason = None,
      result = Some \<lparr>response = ''{\"status\":\"success\"}'', logs = ''step 1''\<rparr>\<rparr>"
proof -
  let ?r1 = "\<lparr>response = ''{\"status\":\"error\",\"error\":\"bad input\",\"details\":{\"reason\":\"x\",\"code\":42}}'',
      logs = ''step 1\<newline>Error: oops''\<rparr>"
  let ?fs = "[(''status'', JStr ''error''), (''error'', JStr ''bad input''),
              (''details'', JObj [(''reason'', JStr ''x''), (''code'', JNum 42)])]"
  let ?r2 = "\<lparr>response = ''done'', logs = ''step 1 Error: oops\<newline>more''\<rparr>"
  let ?r3 = "\<lparr>response = ''{\"status\":\"success\"}'', logs = ''step 1''\<rparr>"
  have p1: "JSON_parse exampleDeps (response ?r1) = Inr (JObj ?fs)"
    by (simp add: exampleDeps_def exampleParse_def)
  have pr: "numberToString exampleDeps = examplePrinter"
    by (simp add: exampleDeps_def)
  have m1: "errorMessageOf examplePrinter (JObj ?fs)
      = Some (JStr ''bad input\<newline>Reason: x\<newline>Code: 42'')"
    using result_interpretation_precedence [where pr = examplePrinter and fs = ?fs]
    by (simp add: detailText_def examplePrinter_def)
  have s2: "structuredError exampleDeps (response ?r2) = None"
    by (simp add: structuredError_def exampleDeps_def exampleParse_def)
  have e2: "errorMatch (logs ?r2) = Some '' oops''"
    by (simp add: errorMatch_def)
  have t2: "trim '' oops'' = ''oops''"
    by (simp add: trim_def is_js_space_def)
  have s3: "structuredError exampleDeps (response ?r3) = None"
    by (simp add: structuredError_def exampleDeps_def exampleParse_def)
  have e3: "errorMatch (logs ?r3) = None"
    by (simp add: errorMatch_def)
  have c1: "snd (interpretResult exampleDeps ?r1)
      = \<lparr>success = False, reason = Some (JStr ''bad input\<newline>Reason: x\<newline>Code: 42''),
         result = Some ?r1\<rparr>"
    using result_interpretation_precedence
      [where raw = ?r1 and deps = exampleDeps and fs = ?fs
         and msg = "JStr ''bad input\<newline>Reason: x\<newline>Code: 42''"] p1 m1 pr
    by simp
  have c2: "snd (interpretResult exampleDeps ?r2)
      = \<lparr>success = False, reason = Some (JStr ''Lit Action error: oops''), result = Some ?r2\<rparr>"
    using result_interpretation_precedence
      [where raw = ?r2 and deps = exampleDeps and found = "'' oops''"] s2 e2 t2 by simp
  have c3: "snd (interpretResult exampleDeps ?r3)
      = \<lparr>success = True, reason = None, result = Some ?r3\<rparr>"
    using result_interpretation_precedence [where raw = ?r3 and deps = exampleDeps] s3 e3
    by simp
  show ?thesis using c1 c2 c3 by simp
qed

text \<open>
  The claim as it is written fails at three inputs: logs that are just \<open>Error:\<close> contain
  the marker and the result is a success; a \<open>details.code\<close> that exists and is \<open>0\<close> is
  not appended to the reason; and a response with \<open>status\<close> \<open>"error"\<close> whose
  \<open>details.reason\<close> is an object with a \<open>toString\<close> key gives a success, not a failure.
\<close>

theorem result_interpretation_counterexample:
  "includes_str ''Error:'' ''Error:''
 \<and> snd (interpretResult exampleDeps \<lparr>response = [], logs = ''Error:''\<rparr>)
     = \<lparr>success = True, reason = None, result = Some \<lparr>response = [], logs = ''Error:''\<rparr>\<rparr>
 \<and> JSON_parse exampleDeps ''{\"status\":\"error\",\"error\":\"bad\",\"details\":{\"code\":0}}''
     = Inr (JObj [(''status'', JStr ''error''), (''error'', JStr ''bad''),
                  (''details'', JObj [(''code'', JNum 0)])])
 \<and> snd (interpretResult exampleDeps
       \<lparr>response = ''{\"status\":\"error\",\"error\":\"bad\",\"details\":{\"code\":0}}'', logs = []\<rparr>)
     = \<lparr>success = False, reason = Some (JStr ''bad''),
        result = Some
          \<lparr>response = ''{\"status\":\"error\",\"error\":\"bad\",\"details\":{\"code\":0}}'',
           logs = []\<rparr>\<rparr>
 \<and> JSON_parse exampleDeps
       ''{\"status\":\"error\",\"error\":\"bad\",\"details\":{\"reason\":{\"toString\":1}}}''
     = Inr (JObj [(''status'', JStr ''error''), (''error'', JStr ''bad''),
                  (''details'', JObj [(''reason'', JObj [(''toString'', JNum 1)])])])
 \<and> snd (interpretResult exampleDeps
       \<lparr>response = ''{\"status\":\"error\",\"error\":\"bad\",\"details\":{\"reason\":{\"toString\":1}}}'',
        logs = []\<rparr>)
     = \<lparr>success = True, reason = None,
        result = Some
          \<lparr>response = ''{\"status\":\"error\",\"error\":\"bad\",\"details\":{\"reason\":{\"toString\":1}}}'',
           logs = []\<rparr>\<rparr>"
  by (simp add: interpretResult_def structuredError_def errorMessageOf_def appendDetail_def
      js_append_def errorMatch_def exampleDeps_def exampleParse_def Let_def)

end
